theory Spec2Isabelle
  imports Complex_Main "HOL-Library.Sublist"
begin

section \<open>Mock deal scoring (agents/databricks\_agent.py)\<close>

text \<open>
  An opportunity handed to the scorer is a Python dict. The scorer reads the keys
  \<^verbatim>\<open>amount\<close> and \<^verbatim>\<open>industry\<close> with \<^verbatim>\<open>.get\<close> and a default, so a key may be absent:
  every key is an option. The remaining keys are carried along unchanged.
\<close>

record raw_opportunity =
  raw_id :: "string option"
  raw_amount :: "real option"
  raw_industry :: "string option"
  raw_product :: "string option"
  raw_region :: "string option"
  raw_customer_size :: "string option"
  raw_existing_customer :: "bool option"
  raw_days_in_current_stage :: "int option"

text \<open>The scored copy: the input dict with the two new keys.\<close>

record scored_raw_opportunity = raw_opportunity +
  mock_winProbability :: real
  mock_nextBestProduct :: string

text \<open>\<^verbatim>\<open>opportunity.get("amount", 50000)\<close> and \<^verbatim>\<open>opportunity.get("industry", "Technology")\<close>.\<close>

definition get_amount :: "raw_opportunity \<Rightarrow> real" where
  "get_amount opportunity = (case raw_amount opportunity of None \<Rightarrow> 50000 | Some a \<Rightarrow> a)"

definition get_industry :: "raw_opportunity \<Rightarrow> string" where
  "get_industry opportunity =
     (case raw_industry opportunity of None \<Rightarrow> ''Technology'' | Some i \<Rightarrow> i)"

definition base_prob :: real where
  "base_prob = 0.5"

text \<open>\<^verbatim>\<open>amount_factor = max(0, min(0.3, 1 - (amount / 1000000)))\<close>\<close>

definition amount_factor :: "real \<Rightarrow> real" where
  "amount_factor amount = max 0 (min 0.3 (1 - amount / 1000000))"

text \<open>The dict literal with \<^verbatim>\<open>.get(industry, 0)\<close>.\<close>

definition industry_bonus :: "string \<Rightarrow> real" where
  "industry_bonus industry =
     (if industry = ''Technology'' then 0.2
      else if industry = ''Healthcare'' then 0.15
      else if industry = ''Finance'' then 0.1
      else if industry = ''Retail'' then 0.05
      else 0)"

text \<open>
  The win probability before rounding. The draw \<^verbatim>\<open>random.uniform(-0.1, 0.1)\<close> is the
  explicit argument \<open>u\<close>.
\<close>

definition win_prob :: "real \<Rightarrow> raw_opportunity \<Rightarrow> real" where
  "win_prob u opportunity =
     max 0.1 (min 0.9 (base_prob + amount_factor (get_amount opportunity)
                        + industry_bonus (get_industry opportunity) + u))"

definition products :: "string \<Rightarrow> string list" where
  "products industry =
     (if industry = ''Technology'' then [''Cloud Security'', ''API Manager'', ''Data Warehouse'']
      else if industry = ''Healthcare''
        then [''Patient Portal'', ''Analytics Platform'', ''Compliance Suite'']
      else if industry = ''Finance''
        then [''Trading Platform'', ''Risk Assessment'', ''Fraud Detection'']
      else [''CRM Enterprise'', ''Analytics Suite'', ''Support Package''])"

definition next_product :: "string \<Rightarrow> real \<Rightarrow> string" where
  "next_product industry p =
     (if p > 0.7 then products industry ! 0
      else if p > 0.4 then products industry ! 1
      else products industry ! 2)"

text \<open>
  \<^verbatim>\<open>round(x, 2)\<close>: to the nearest multiple of 0.01, a tie going to the even neighbour.
  The model computes over the reals, not over binary floating point.
\<close>

definition round_half_even :: "real \<Rightarrow> int" where
  "round_half_even x =
     (let f = \<lfloor>x\<rfloor>; d = x - of_int f
      in if d < 1 / 2 then f else if 1 / 2 < d then f + 1
         else if even f then f else f + 1)"

definition round2 :: "real \<Rightarrow> real" where
  "round2 x = of_int (round_half_even (x * 100)) / 100"

text \<open>
  The scorer itself. The text stored in \<^verbatim>\<open>self.last_response\<close> for display is not part
  of the returned value and is left out.
\<close>

definition mock_score_opportunity :: "real \<Rightarrow> raw_opportunity \<Rightarrow> scored_raw_opportunity" where
  "mock_score_opportunity u opportunity =
     (let industry = get_industry opportunity;
          p = win_prob u opportunity
      in raw_opportunity.extend opportunity
           \<lparr>mock_winProbability = round2 p,
            mock_nextBestProduct = next_product industry p\<rparr>)"

text \<open>The claim's words for the product choice: a band of the probability picks the tier.\<close>

datatype band = High | Mid | Entry

definition band_of :: "real \<Rightarrow> band" where
  "band_of p = (if p > 0.7 then High else if p > 0.4 then Mid else Entry)"

definition industry_list :: "string \<Rightarrow> string \<times> string \<times> string" where
  "industry_list industry =
     (if industry = ''Technology'' then (''Cloud Security'', ''API Manager'', ''Data Warehouse'')
      else if industry = ''Healthcare''
        then (''Patient Portal'', ''Analytics Platform'', ''Compliance Suite'')
      else if industry = ''Finance''
        then (''Trading Platform'', ''Risk Assessment'', ''Fraud Detection'')
      else (''CRM Enterprise'', ''Analytics Suite'', ''Support Package''))"

fun tier_product :: "string \<times> string \<times> string \<Rightarrow> band \<Rightarrow> string" where
  "tier_product (a, b, c) High = a"
| "tier_product (a, b, c) Mid = b"
| "tier_product (a, b, c) Entry = c"

text \<open>The opportunity of the spec's concrete scenario.\<close>

definition opp_001 :: raw_opportunity where
  "opp_001 = \<lparr>raw_id = Some ''opp_001'', raw_amount = Some 250000,
     raw_industry = Some ''Finance'', raw_product = None, raw_region = None,
     raw_customer_size = None, raw_existing_customer = Some False,
     raw_days_in_current_stage = Some 10\<rparr>"

section \<open>The deal pipeline (agents/deal\_orchestrator\_agent.py)\<close>

subsection \<open>Data, requests and answers\<close>

text \<open>
  A scored opportunity as the orchestrator reads it: \<^verbatim>\<open>opp["id"]\<close>,
  \<^verbatim>\<open>opp["amount"]\<close>, \<^verbatim>\<open>opp["winProbability"]\<close> and \<^verbatim>\<open>opp["nextBestProduct"]\<close> are
  indexed directly, so the record carries exactly these keys. Amounts and probabilities
  are reals.
\<close>

record opportunity =
  opp_id :: string
  amount :: real
  winProbability :: real
  nextBestProduct :: string

text \<open>
  The five HTTP calls the orchestrator makes through its session, each with its payload:
  \<^item> POST /snowflake/query with \<^verbatim>\<open>sql\<close>;
  \<^item> POST /databricks/score with \<^verbatim>\<open>model\<close> and \<^verbatim>\<open>data\<close>;
  \<^item> PATCH /salesforce/opportunity/\{id\} with \<^verbatim>\<open>Win_Probability__c\<close> and
    \<^verbatim>\<open>Next_Best_Product__c\<close>;
  \<^item> POST /salesforce/task with \<^verbatim>\<open>WhatId\<close>, \<^verbatim>\<open>Subject\<close> and \<^verbatim>\<open>ActivityDate\<close>;
  \<^item> POST /snowflake/insert with \<^verbatim>\<open>table\<close> and the row \<^verbatim>\<open>runDate\<close>,
    \<^verbatim>\<open>highPriorityCount\<close>, \<^verbatim>\<open>totalPipelineValue\<close>.
\<close>

datatype request =
    SnowflakeQuery string
  | DatabricksScore string "raw_opportunity list"
  | SalesforceUpdate string real string
  | SalesforceTask string string string
  | SnowflakeInsert string string nat real

text \<open>
  The JSON body of an answer: a document with \<^verbatim>\<open>rows\<close>, one with \<^verbatim>\<open>scored\<close>, any
  other document, or bytes that \<^verbatim>\<open>response.json()\<close> cannot decode.
\<close>

datatype body =
    JRows "raw_opportunity list"
  | JScored "opportunity list"
  | JObject string
  | JInvalid

text \<open>An answer is a status with a body, or the session raises (a transport failure).\<close>

datatype response = Response nat body | Raises string

text \<open>
  The exceptions of the module. \<open>ClientResponseError\<close> is what
  \<^verbatim>\<open>response.raise_for_status()\<close> raises, \<open>ClientError\<close> what the session raises,
  \<open>ScoringFailed s\<close> stands for
  \<^verbatim>\<open>Exception(f"Critical error: Databricks scoring failed with status {s}")\<close> and
  \<open>CriticalDatabricks e\<close> for \<^verbatim>\<open>Exception(f"Critical error in Databricks: {str(e)}")\<close>.
\<close>

datatype exn =
    ClientResponseError nat
  | ClientError string
  | JSONDecodeError
  | KeyError string
  | TypeError
  | Exception string
  | ScoringFailed nat
  | CriticalDatabricks exn

text \<open>
  What a run does to the outside is a trace of calls and sleeps. The session is a function:
  the answer to a request may depend on how many calls were made before it.
\<close>

datatype event = Call request | Sleep real

type_synonym trace = "event list"

type_synonym session = "nat \<Rightarrow> request \<Rightarrow> response"

fun is_call :: "event \<Rightarrow> bool" where
  "is_call (Call r) = True"
| "is_call (Sleep d) = False"

definition ncalls :: "trace \<Rightarrow> nat" where
  "ncalls tr = length (filter is_call tr)"

definition send :: "session \<Rightarrow> request \<Rightarrow> trace \<Rightarrow> response \<times> trace" where
  "send srv req tr = (srv (ncalls tr) req, tr @ [Call req])"

definition sleep :: "real \<Rightarrow> trace \<Rightarrow> trace" where
  "sleep d tr = tr @ [Sleep d]"

record retry_config =
  max_retries :: nat
  backoff_factor :: real

text \<open>\<^verbatim>\<open>self.retry_config\<close> as \<^verbatim>\<open>__init__\<close> sets it.\<close>

definition default_retry_config :: retry_config where
  "default_retry_config = \<lparr>max_retries = 2, backoff_factor = 1.5\<rparr>"

text \<open>\<^verbatim>\<open>backoff_time = self.retry_config["backoff_factor"] * (2 ** attempt)\<close>\<close>

definition backoff_time :: "retry_config \<Rightarrow> nat \<Rightarrow> real" where
  "backoff_time cfg attempt = backoff_factor cfg * 2 ^ attempt"

subsection \<open>The retry loops of Fetch, Score and WriteSummary\<close>

text \<open>
  One pass through the body of \<^verbatim>\<open>for attempt in range(max_retries + 1)\<close> returns a
  value, goes on to the next attempt, or raises out of the function.
\<close>

datatype 'a step = Return 'a | Continue | Raise exn

fun for_attempts ::
  "(nat \<Rightarrow> trace \<Rightarrow> 'a step \<times> trace) \<Rightarrow> exn \<Rightarrow> nat list \<Rightarrow> trace \<Rightarrow> (exn + 'a) \<times> trace"
where
  "for_attempts body after [] tr = (Inl after, tr)"
| "for_attempts body after (attempt # rest) tr =
     (case body attempt tr of
        (Return x, tr1) \<Rightarrow> (Inr x, tr1)
      | (Continue, tr1) \<Rightarrow> for_attempts body after rest tr1
      | (Raise e, tr1) \<Rightarrow> (Inl e, tr1))"

text \<open>
  The \<^verbatim>\<open>except Exception as e\<close> clause of Fetch and WriteSummary: sleep and go on while
  retries are left, re-raise otherwise.
\<close>

definition except_retry :: "retry_config \<Rightarrow> nat \<Rightarrow> exn \<Rightarrow> trace \<Rightarrow> 'a step \<times> trace" where
  "except_retry cfg attempt e tr =
     (if attempt < max_retries cfg then (Continue, sleep (backoff_time cfg attempt) tr)
      else (Raise e, tr))"

definition sql_query :: string where
  "sql_query = ''SELECT * FROM sales.opportunities WHERE close_date > CURRENT_DATE''"

text \<open>
  \<^verbatim>\<open>raise_for_status\<close> raises from status 400 on; below that the body of the \<^verbatim>\<open>try\<close>
  ends and the loop goes on without a sleep.
\<close>

definition fetch_attempt ::
  "retry_config \<Rightarrow> session \<Rightarrow> nat \<Rightarrow> trace \<Rightarrow> raw_opportunity list step \<times> trace"
where
  "fetch_attempt cfg srv attempt tr =
     (case send srv (SnowflakeQuery sql_query) tr of
        (Raises m, tr1) \<Rightarrow> except_retry cfg attempt (ClientError m) tr1
      | (Response status b, tr1) \<Rightarrow>
          if status = 200 then
            (case b of
               JRows rows \<Rightarrow> (Return rows, tr1)
             | JInvalid \<Rightarrow> except_retry cfg attempt JSONDecodeError tr1
             | _ \<Rightarrow> except_retry cfg attempt (KeyError ''rows'') tr1)
          else if 500 \<le> status \<and> status < 600 \<and> attempt < max_retries cfg then
            (Continue, sleep (backoff_time cfg attempt) tr1)
          else if 400 \<le> status then except_retry cfg attempt (ClientResponseError status) tr1
          else (Continue, tr1))"

definition fetch_opportunities ::
  "retry_config \<Rightarrow> session \<Rightarrow> trace \<Rightarrow> (exn + raw_opportunity list) \<times> trace"
where
  "fetch_opportunities cfg srv tr =
     for_attempts (fetch_attempt cfg srv)
       (Exception ''Failed to fetch opportunities from Snowflake'')
       [0..<max_retries cfg + 1] tr"

text \<open>
  Score: whatever is raised inside the \<^verbatim>\<open>try\<close>, the exception of line 81 included, is
  caught by the \<^verbatim>\<open>except\<close> clause, which retries while retries are left and raises the
  wrapped critical error otherwise.
\<close>

definition except_score :: "retry_config \<Rightarrow> nat \<Rightarrow> exn \<Rightarrow> trace \<Rightarrow> 'a step \<times> trace" where
  "except_score cfg attempt e tr =
     (if attempt < max_retries cfg then (Continue, sleep (backoff_time cfg attempt) tr)
      else (Raise (CriticalDatabricks e), tr))"

definition score_attempt ::
  "retry_config \<Rightarrow> session \<Rightarrow> raw_opportunity list \<Rightarrow> nat \<Rightarrow> trace
     \<Rightarrow> opportunity list step \<times> trace"
where
  "score_attempt cfg srv opportunities attempt tr =
     (case send srv (DatabricksScore ''prod_fin_sales_v2'' opportunities) tr of
        (Raises m, tr1) \<Rightarrow> except_score cfg attempt (ClientError m) tr1
      | (Response status b, tr1) \<Rightarrow>
          if status = 200 then
            (case b of
               JScored scored \<Rightarrow> (Return scored, tr1)
             | JInvalid \<Rightarrow> except_score cfg attempt JSONDecodeError tr1
             | _ \<Rightarrow> except_score cfg attempt (KeyError ''scored'') tr1)
          else if 500 \<le> status \<and> status < 600 \<and> attempt < max_retries cfg then
            (Continue, sleep (backoff_time cfg attempt) tr1)
          else except_score cfg attempt (ScoringFailed status) tr1)"

definition score_opportunities ::
  "retry_config \<Rightarrow> session \<Rightarrow> raw_opportunity list \<Rightarrow> trace
     \<Rightarrow> (exn + opportunity list) \<times> trace"
where
  "score_opportunities cfg srv opportunities tr =
     (if opportunities = [] then (Inr [], tr)
      else for_attempts (score_attempt cfg srv opportunities)
             (Exception ''Failed to score opportunities in Databricks'')
             [0..<max_retries cfg + 1] tr)"

subsection \<open>UpdateRecords and CreateFollowUps\<close>

text \<open>The dict \<^verbatim>\<open>update_salesforce\<close> returns, which is also its running state.\<close>

record sf_results =
  high_priority_count :: nat
  total_pipeline_value :: real
  updated_records :: "body list"
  created_tasks :: "body list"
  error_records :: "string list"

definition sf_init :: sf_results where
  "sf_init = \<lparr>high_priority_count = 0, total_pipeline_value = 0, updated_records = [],
     created_tasks = [], error_records = []\<rparr>"

definition add_error :: "string \<Rightarrow> sf_results \<Rightarrow> sf_results" where
  "add_error i acc = acc\<lparr>error_records := error_records acc @ [i]\<rparr>"

definition update_request :: "opportunity \<Rightarrow> request" where
  "update_request opp = SalesforceUpdate (opp_id opp) (winProbability opp) (nextBestProduct opp)"

definition task_request :: "string \<Rightarrow> opportunity \<Rightarrow> request" where
  "task_request tomorrow opp =
     SalesforceTask (opp_id opp) ''Follow up on high-priority deal'' tomorrow"

text \<open>
  The inline loop \<^verbatim>\<open>for retry in range(max_retries)\<close> after a 5xx answer: sleep, send the
  update again; a 200 answer is recorded and ends the loop, any other answer goes on.
  An exception leaves the loop for the \<^verbatim>\<open>except\<close> clause of the record.
\<close>

datatype retry_outcome = RetrySuccess body | RetryExhausted | RetryRaised

fun retry_update ::
  "retry_config \<Rightarrow> session \<Rightarrow> request \<Rightarrow> nat list \<Rightarrow> trace \<Rightarrow> retry_outcome \<times> trace"
where
  "retry_update cfg srv req [] tr = (RetryExhausted, tr)"
| "retry_update cfg srv req (retry # rest) tr =
     (case send srv req (sleep (backoff_time cfg retry) tr) of
        (Raises m, tr1) \<Rightarrow> (RetryRaised, tr1)
      | (Response status b, tr1) \<Rightarrow>
          if status = 200 then
            (if b = JInvalid then (RetryRaised, tr1) else (RetrySuccess b, tr1))
          else retry_update cfg srv req rest tr1)"

text \<open>The body of \<^verbatim>\<open>for opp in scored_opportunities\<close>.\<close>

definition update_one ::
  "retry_config \<Rightarrow> session \<Rightarrow> string \<Rightarrow> opportunity \<Rightarrow> sf_results \<times> trace
     \<Rightarrow> sf_results \<times> trace"
where
  "update_one cfg srv tomorrow opp st =
     (case st of (acc, tr) \<Rightarrow>
      (case send srv (update_request opp) tr of
         (Raises m, tr1) \<Rightarrow> (add_error (opp_id opp) acc, tr1)
       | (Response status b, tr1) \<Rightarrow>
           if status = 200 then
             (if b = JInvalid then (add_error (opp_id opp) acc, tr1)
              else
                let acc1 = acc\<lparr>updated_records := updated_records acc @ [b]\<rparr> in
                (case send srv (task_request tomorrow opp) tr1 of
                   (Raises m, tr2) \<Rightarrow> (add_error (opp_id opp) acc1, tr2)
                 | (Response task_status tb, tr2) \<Rightarrow>
                     if task_status = 200 \<and> tb = JInvalid
                     then (add_error (opp_id opp) acc1, tr2)
                     else
                       let acc2 = (if task_status = 200
                                   then acc1\<lparr>created_tasks := created_tasks acc1 @ [tb]\<rparr>
                                   else acc1)
                       in if winProbability opp > 0.8
                          then (acc2\<lparr>high_priority_count := high_priority_count acc2 + 1,
                                     total_pipeline_value :=
                                       total_pipeline_value acc2 + amount opp\<rparr>, tr2)
                          else (acc2, tr2)))
           else if 400 \<le> status \<and> status < 500 then (add_error (opp_id opp) acc, tr1)
           else if 500 \<le> status \<and> status < 600 then
             (case retry_update cfg srv (update_request opp) [0..<max_retries cfg] tr1 of
                (RetrySuccess rb, tr2) \<Rightarrow>
                  (acc\<lparr>updated_records := updated_records acc @ [rb]\<rparr>, tr2)
              | (RetryExhausted, tr2) \<Rightarrow> (add_error (opp_id opp) acc, tr2)
              | (RetryRaised, tr2) \<Rightarrow> (add_error (opp_id opp) acc, tr2))
           else (acc, tr1)))"

fun update_loop ::
  "retry_config \<Rightarrow> session \<Rightarrow> string \<Rightarrow> opportunity list \<Rightarrow> sf_results \<times> trace
     \<Rightarrow> sf_results \<times> trace"
where
  "update_loop cfg srv tomorrow [] st = st"
| "update_loop cfg srv tomorrow (opp # rest) st =
     update_loop cfg srv tomorrow rest (update_one cfg srv tomorrow opp st)"

text \<open>
  \<^verbatim>\<open>update_salesforce\<close> returns the empty list, not a dict, when it is given no
  opportunities.
\<close>

datatype sf_return = SfEmptyList | SfDict sf_results

definition update_salesforce ::
  "retry_config \<Rightarrow> session \<Rightarrow> string \<Rightarrow> opportunity list \<Rightarrow> trace \<Rightarrow> sf_return \<times> trace"
where
  "update_salesforce cfg srv tomorrow scored_opportunities tr =
     (if scored_opportunities = [] then (SfEmptyList, tr)
      else case update_loop cfg srv tomorrow scored_opportunities (sf_init, tr) of
             (acc, tr1) \<Rightarrow> (SfDict acc, tr1))"

subsection \<open>WriteSummary\<close>

definition summary_request :: "string \<Rightarrow> sf_results \<Rightarrow> request" where
  "summary_request today summary_data =
     SnowflakeInsert ''analytics.fin_sales_priority_summary'' today
       (high_priority_count summary_data) (total_pipeline_value summary_data)"

definition write_attempt ::
  "retry_config \<Rightarrow> session \<Rightarrow> string \<Rightarrow> sf_results \<Rightarrow> nat \<Rightarrow> trace \<Rightarrow> body step \<times> trace"
where
  "write_attempt cfg srv today summary_data attempt tr =
     (case send srv (summary_request today summary_data) tr of
        (Raises m, tr1) \<Rightarrow> except_retry cfg attempt (ClientError m) tr1
      | (Response status b, tr1) \<Rightarrow>
          if status = 200 then
            (if b = JInvalid then except_retry cfg attempt JSONDecodeError tr1
             else (Return b, tr1))
          else if 500 \<le> status \<and> status < 600 \<and> attempt < max_retries cfg then
            (Continue, sleep (backoff_time cfg attempt) tr1)
          else if 400 \<le> status then except_retry cfg attempt (ClientResponseError status) tr1
          else (Continue, tr1))"

definition write_summary ::
  "retry_config \<Rightarrow> session \<Rightarrow> string \<Rightarrow> sf_results \<Rightarrow> trace \<Rightarrow> (exn + body) \<times> trace"
where
  "write_summary cfg srv today summary_data tr =
     for_attempts (write_attempt cfg srv today summary_data)
       (Exception ''Failed to write summary to Snowflake'')
       [0..<max_retries cfg + 1] tr"

subsection \<open>The workflow\<close>

datatype jvalue = JString string | JNumber real

text \<open>
  The dict \<^verbatim>\<open>run_workflow\<close> returns: with status \<^verbatim>\<open>success\<close> the keys
  \<^verbatim>\<open>opportunities\<close>, \<^verbatim>\<open>tasks\<close>, \<^verbatim>\<open>summary\<close> and \<^verbatim>\<open>errors\<close>; with status \<^verbatim>\<open>error\<close>
  the key \<^verbatim>\<open>message\<close>, the text of the exception. The summary is a dict of its own,
  kept as the list of its keys and values.
\<close>

record workflow_success =
  res_opportunities :: "opportunity list"
  res_tasks :: "body list"
  res_summary :: "(string \<times> jvalue) list"
  res_errors :: "string list"

datatype workflow_result = Success workflow_success | Error exn

fun result_status :: "workflow_result \<Rightarrow> string" where
  "result_status (Success r) = ''success''"
| "result_status (Error e) = ''error''"

text \<open>
  The dates \<^verbatim>\<open>datetime.now()\<close> yields are the arguments \<open>today\<close> and \<open>tomorrow\<close>.
  Indexing the empty list that \<^verbatim>\<open>update_salesforce\<close> may return with a string raises
  \<^verbatim>\<open>TypeError\<close>, which the \<^verbatim>\<open>except\<close> clause of the workflow turns into an error result.
\<close>

definition run_workflow ::
  "retry_config \<Rightarrow> session \<Rightarrow> string \<Rightarrow> string \<Rightarrow> trace \<Rightarrow> workflow_result \<times> trace"
where
  "run_workflow cfg srv today tomorrow tr =
     (case fetch_opportunities cfg srv tr of
        (Inl e, tr1) \<Rightarrow> (Error e, tr1)
      | (Inr opportunities, tr1) \<Rightarrow>
          (case score_opportunities cfg srv opportunities tr1 of
             (Inl e, tr2) \<Rightarrow> (Error e, tr2)
           | (Inr scored_opportunities, tr2) \<Rightarrow>
               (case update_salesforce cfg srv tomorrow scored_opportunities tr2 of
                  (SfEmptyList, tr3) \<Rightarrow> (Error TypeError, tr3)
                | (SfDict sf, tr3) \<Rightarrow>
                    (case write_summary cfg srv today sf tr3 of
                       (Inl e, tr4) \<Rightarrow> (Error e, tr4)
                     | (Inr summary_result, tr4) \<Rightarrow>
                         (Success
                            \<lparr>res_opportunities = scored_opportunities,
                             res_tasks = created_tasks sf,
                             res_summary =
                               [(''runDate'', JString today),
                                (''highPriorityCount'',
                                   JNumber (real (high_priority_count sf))),
                                (''totalPipelineValue'',
                                   JNumber (total_pipeline_value sf))],
                             res_errors = error_records sf\<rparr>, tr4)))))"

section \<open>The conversational router (agents/coordinator.py, api.py)\<close>

subsection \<open>State\<close>

record message =
  msg_role :: string
  msg_content :: string

text \<open>
  The session context is a dict; the keys the router reads with \<^verbatim>\<open>.get\<close> may be
  absent and are options. Other keys (mock data, notifications, retrieved data) are not
  read by the functions below.
\<close>

record session_context =
  ctx_role :: "string option"
  ctx_conversation_history :: "message list option"
  ctx_messages :: "message list option"
  ctx_routing_reason :: "string option"
  ctx_next_agent :: "string option"

text \<open>The state dict with its keys \<^verbatim>\<open>input\<close>, \<^verbatim>\<open>context\<close> and \<^verbatim>\<open>next\<close>.\<close>

record state =
  st_input :: string
  st_context :: session_context
  st_next :: string

text \<open>The terminal sentinel \<^verbatim>\<open>END\<close> of the graph library.\<close>

definition END :: string where
  "END = ''__end__''"

subsection \<open>Strings\<close>

text \<open>
  \<^verbatim>\<open>str.lower()\<close> on ASCII text, and the substring test \<^verbatim>\<open>needle in text\<close>.
\<close>

definition lower_char :: "char \<Rightarrow> char" where
  "lower_char c =
     (case map_of (zip ''ABCDEFGHIJKLMNOPQRSTUVWXYZ'' ''abcdefghijklmnopqrstuvwxyz'') c of
        None \<Rightarrow> c
      | Some l \<Rightarrow> l)"

definition lower :: "string \<Rightarrow> string" where
  "lower s = map lower_char s"

definition contains :: "string \<Rightarrow> string \<Rightarrow> bool" where
  "contains text needle = sublist needle text"

subsection \<open>The coordinator\<close>

text \<open>
  The messages sent to the completion client: the last five entries of the history, then
  the request. The client, called with the fixed system prompt, is the function
  \<open>client\<close>; it returns the completion text or raises.
\<close>

definition coordinator_messages :: "state \<Rightarrow> message list" where
  "coordinator_messages state =
     (let input_text = st_input state;
          context = st_context state;
          role = (case ctx_role context of None \<Rightarrow> ''unknown'' | Some r \<Rightarrow> r);
          history = (case ctx_conversation_history context of None \<Rightarrow> [] | Some h \<Rightarrow> h)
      in map (\<lambda>entry. \<lparr>msg_role = (if msg_role entry = ''user'' then ''user'' else ''assistant''),
                         msg_content = msg_content entry\<rparr>)
           (drop (length history - 5) history)
         @ [\<lparr>msg_role = ''user'',
             msg_content = ''User role: '' @ role @ [CHR 0x0A] @ ''User request: ''
               @ input_text @ [CHR 0x0A, CHR 0x0A]
               @ ''Which agent should handle this and why?''\<rparr>])"

definition coordinator_agent :: "(message list \<Rightarrow> exn + string) \<Rightarrow> state \<Rightarrow> exn + state" where
  "coordinator_agent client state =
     (let input_text = st_input state;
          context = st_context state
      in case client (coordinator_messages state) of
           Inl e \<Rightarrow> Inl e
         | Inr content \<Rightarrow>
             let next_agent =
                   (if contains (lower content) ''route_optimizer'' then ''route_optimizer''
                    else if contains (lower content) ''fleet_monitor'' then ''fleet_monitor''
                    else if contains (lower content) ''data_retriever'' then ''data_retriever''
                    else if contains (lower content) ''notification'' then ''notification''
                    else ''route_optimizer'')
             in Inr \<lparr>st_input = input_text,
                     st_context = context\<lparr>ctx_routing_reason := Some content,
                                           ctx_next_agent := Some next_agent\<rparr>,
                     st_next = next_agent\<rparr>)"

subsection \<open>The dispatcher\<close>

text \<open>
  A handler maps a state to a state or raises. The five handlers the dispatcher imports
  are its parameters, so that any of them can be replaced by a stub.
\<close>

type_synonym handler = "state \<Rightarrow> exn + state"

record agents =
  coordinator :: handler
  route_optimizer :: handler
  fleet_monitor :: handler
  data_retriever :: handler
  notification :: handler

text \<open>
  What \<^verbatim>\<open>process_with_agents\<close> returns: the dict with \<^verbatim>\<open>error\<close> and \<^verbatim>\<open>context\<close>, or
  the dict with \<^verbatim>\<open>result\<close> and \<^verbatim>\<open>context\<close>.
\<close>

datatype agents_output = AgentsError exn session_context | AgentsResult state session_context


text \<open>Step 2: the handler picked for the coordinator's \<^verbatim>\<open>next\<close>, with its name.\<close>

definition specialist :: "agents \<Rightarrow> string \<Rightarrow> string \<times> handler" where
  "specialist ag next_agent =
     (if next_agent = ''route_optimizer'' then (''route_optimizer'', route_optimizer ag)
      else if next_agent = ''fleet_monitor'' then (''fleet_monitor'', fleet_monitor ag)
      else if next_agent = ''data_retriever'' then (''data_retriever'', data_retriever ag)
      else if next_agent = ''notification'' then (''notification'', notification ag)
      else (''route_optimizer'', route_optimizer ag))"

text \<open>
  The dispatcher, returning its output together with the names of the handlers it
  invoked, in order. An error output carries the context the dispatcher was called with.
\<close>

definition process_with_agents ::
  "agents \<Rightarrow> string \<Rightarrow> session_context \<Rightarrow> agents_output \<times> string list"
where
  "process_with_agents ag user_input context =
     (let state = \<lparr>st_input = user_input, st_context = context, st_next = ''''\<rparr> in
      case coordinator ag state of
        Inl e \<Rightarrow> (AgentsError e context, [''coordinator''])
      | Inr coordinator_result \<Rightarrow>
          let next_agent = st_next coordinator_result;
              state = coordinator_result;
              (name, agent) = specialist ag next_agent;
              invoked = [''coordinator'', name]
          in case agent state of
               Inl e \<Rightarrow> (AgentsError e context, invoked)
             | Inr agent_result \<Rightarrow>
                 let state = agent_result in
                 (case (if st_next state = ''data_retriever''
                        then (data_retriever ag state, invoked @ [''data_retriever''])
                        else (Inr state, invoked)) of
                    (Inl e, invoked) \<Rightarrow> (AgentsError e context, invoked)
                  | (Inr state, invoked) \<Rightarrow>
                      (case (if st_next state = ''notification''
                             then (notification ag state, invoked @ [''notification''])
                             else (Inr state, invoked)) of
                         (Inl e, invoked) \<Rightarrow> (AgentsError e context, invoked)
                       | (Inr state, invoked) \<Rightarrow>
                           (AgentsResult state (st_context state), invoked))))"

text \<open>The dispatcher with the coordinator of this repository in place.\<close>

definition with_coordinator :: "(message list \<Rightarrow> exn + string) \<Rightarrow> agents \<Rightarrow> agents" where
  "with_coordinator client ag = ag\<lparr>coordinator := coordinator_agent client\<rparr>"

section \<open>Vocabulary of the properties\<close>

text \<open>
  A retriable outcome of a call: a 5xx status, or the session raising.
\<close>

definition retriable :: "response \<Rightarrow> bool" where
  "retriable r =
     (case r of Raises m \<Rightarrow> True | Response status b \<Rightarrow> 500 \<le> status \<and> status < 600)"

text \<open>
  The trace of \<open>k\<close> failed attempts at one request: each attempt is followed by the
  sleep of its index.
\<close>

definition retries :: "retry_config \<Rightarrow> request \<Rightarrow> nat \<Rightarrow> trace" where
  "retries cfg req k = concat (map (\<lambda>i. [Call req, Sleep (backoff_time cfg i)]) [0..<k])"

text \<open>The exception a failed last attempt leaves Fetch and WriteSummary with, and Score.\<close>

fun raised_by :: "response \<Rightarrow> exn" where
  "raised_by (Raises m) = ClientError m"
| "raised_by (Response status b) = ClientResponseError status"

fun score_raised_by :: "response \<Rightarrow> exn" where
  "score_raised_by (Raises m) = CriticalDatabricks (ClientError m)"
| "score_raised_by (Response status b) = CriticalDatabricks (ScoringFailed status)"

definition fetch_request :: request where
  "fetch_request = SnowflakeQuery sql_query"

definition score_request :: "raw_opportunity list \<Rightarrow> request" where
  "score_request opportunities = DatabricksScore ''prod_fin_sales_v2'' opportunities"

text \<open>The events a run adds to the trace it starts from.\<close>

definition later_events :: "trace \<Rightarrow> trace \<Rightarrow> trace" where
  "later_events tr tr' = drop (length tr) tr'"

text \<open>Recognisers for the UpdateRecord, CreateFollowUp and WriteSummary calls.\<close>

fun is_update_record :: "event \<Rightarrow> bool" where
  "is_update_record (Call (SalesforceUpdate i p n)) = True"
| "is_update_record ev = False"

fun is_create_follow_up :: "event \<Rightarrow> bool" where
  "is_create_follow_up (Call (SalesforceTask w s d)) = True"
| "is_create_follow_up ev = False"

fun is_write_summary :: "event \<Rightarrow> bool" where
  "is_write_summary (Call (SnowflakeInsert t d c v)) = True"
| "is_write_summary ev = False"

text \<open>An event of the Fetch or Score stage: a sleep, the query, or the scoring request.\<close>

fun early_event :: "event \<Rightarrow> bool" where
  "early_event (Sleep d) = True"
| "early_event (Call (SnowflakeQuery q)) = True"
| "early_event (Call (DatabricksScore m d)) = True"
| "early_event ev = False"

text \<open>A trace grows by events that all satisfy a predicate.\<close>

definition grows :: "(event \<Rightarrow> bool) \<Rightarrow> trace \<Rightarrow> trace \<Rightarrow> bool" where
  "grows P tr tr' = (\<exists>new. tr' = tr @ new \<and> list_all P new)"

text \<open>
  The trace of the inline retries \<open>a, \<dots>, a + r - 1\<close> of an update: each sleeps, then
  sends the request again.
\<close>

definition retried :: "retry_config \<Rightarrow> request \<Rightarrow> nat \<Rightarrow> nat \<Rightarrow> trace" where
  "retried cfg req a r =
     concat (map (\<lambda>i. [Sleep (backoff_time cfg i), Call req]) [a..<a + r])"

text \<open>
  Reading an answer: a 200 answer whose body decodes; an answer that is read without an
  exception (any status, the body having to decode only under status 200); a 4xx answer.
\<close>

fun decodes_200 :: "response \<Rightarrow> bool" where
  "decodes_200 (Response status b) = (status = 200 \<and> b \<noteq> JInvalid)"
| "decodes_200 (Raises m) = False"

fun answers :: "response \<Rightarrow> bool" where
  "answers (Response status b) = (status \<noteq> 200 \<or> b \<noteq> JInvalid)"
| "answers (Raises m) = False"

fun rejected_4xx :: "response \<Rightarrow> bool" where
  "rejected_4xx (Response status b) = (400 \<le> status \<and> status < 500)"
| "rejected_4xx (Raises m) = False"

fun body_of :: "response \<Rightarrow> body" where
  "body_of (Response status b) = b"
| "body_of (Raises m) = JInvalid"

text \<open>A session whose answers depend on the request alone.\<close>

definition const_session :: "(request \<Rightarrow> response) \<Rightarrow> session" where
  "const_session f n = f"

text \<open>
  For such a session: the update of the opportunity
  is accepted at the first attempt and its follow-up call raises nothing.
\<close>

definition first_try_ok :: "(request \<Rightarrow> response) \<Rightarrow> string \<Rightarrow> opportunity \<Rightarrow> bool" where
  "first_try_ok f tomorrow opp =
     (decodes_200 (f (update_request opp)) \<and> answers (f (task_request tomorrow opp)))"



text \<open>The events of one record in such a session, when every update is accepted or rejected.\<close>

definition record_events :: "(request \<Rightarrow> response) \<Rightarrow> string \<Rightarrow> opportunity \<Rightarrow> trace" where
  "record_events f tomorrow opp =
     (if first_try_ok f tomorrow opp
      then [Call (update_request opp), Call (task_request tomorrow opp)]
      else [Call (update_request opp)])"

text \<open>
  The average win probability of a list of scored opportunities, as the dashboard's own
  workflow (integrated\_app.py) computes it: the sum over the length, 0 for no
  opportunities.
\<close>

definition avg_probability :: "opportunity list \<Rightarrow> real" where
  "avg_probability scored_opportunities =
     (if scored_opportunities = [] then 0
      else sum_list (map winProbability scored_opportunities)
             / real (length scored_opportunities))"

section \<open>Concrete sessions and data\<close>

definition deal_a :: opportunity where
  "deal_a = \<lparr>opp_id = ''opp_a'', amount = 1000, winProbability = 0.9,
     nextBestProduct = ''Trading Platform''\<rparr>"

text \<open>A session whose first call fails with 503 and whose later calls all succeed.\<close>

definition flaky_once :: session where
  "flaky_once n req =
     (if n < 1 then Response 503 JInvalid
      else case req of
             SnowflakeQuery q \<Rightarrow> Response 200 (JRows [opp_001])
           | DatabricksScore m d \<Rightarrow> Response 200 (JScored [deal_a])
           | _ \<Rightarrow> Response 200 (JObject ''ok''))"

text \<open>A session that answers 503 to every call.\<close>

definition always_503 :: session where
  "always_503 n req = Response 503 JInvalid"

text \<open>A session that serves the query and answers 400 to every other call.\<close>

definition score_400 :: session where
  "score_400 n req =
     (case req of
        SnowflakeQuery q \<Rightarrow> Response 200 (JRows [opp_001])
      | _ \<Rightarrow> Response 400 JInvalid)"

text \<open>
  A session that serves the query and the scoring, answers 503 to the first update it
  sees (the third call of a run) and 200 to every later call.
\<close>

definition update_flaky :: session where
  "update_flaky n req =
     (case req of
        SnowflakeQuery q \<Rightarrow> Response 200 (JRows [opp_001])
      | DatabricksScore m d \<Rightarrow> Response 200 (JScored [deal_a])
      | _ \<Rightarrow> if n = 2 then Response 503 JInvalid else Response 200 (JObject ''ok''))"

text \<open>A session that answers 200 to everything.\<close>

definition all_ok :: session where
  "all_ok n req =
     (case req of
        SnowflakeQuery q \<Rightarrow> Response 200 (JRows [opp_001])
      | DatabricksScore m d \<Rightarrow> Response 200 (JScored [deal_a])
      | _ \<Rightarrow> Response 200 (JObject ''ok''))"

text \<open>
  Five scored deals, and a session (its answers depend on the request alone) that serves
  them and rejects the update of \<open>opp_c\<close> with 404.
\<close>

definition deal_b :: opportunity where
  "deal_b = \<lparr>opp_id = ''opp_b'', amount = 500, winProbability = 0.85,
     nextBestProduct = ''Cloud Security''\<rparr>"

definition deal_c :: opportunity where
  "deal_c = \<lparr>opp_id = ''opp_c'', amount = 2000, winProbability = 0.95,
     nextBestProduct = ''Patient Portal''\<rparr>"

definition deal_d :: opportunity where
  "deal_d = \<lparr>opp_id = ''opp_d'', amount = 300, winProbability = 0.5,
     nextBestProduct = ''Analytics Suite''\<rparr>"

definition deal_e :: opportunity where
  "deal_e = \<lparr>opp_id = ''opp_e'', amount = 200, winProbability = 0.3,
     nextBestProduct = ''Support Package''\<rparr>"

definition five_deals :: "opportunity list" where
  "five_deals = [deal_a, deal_b, deal_c, deal_d, deal_e]"

definition reject_c :: "request \<Rightarrow> response" where
  "reject_c req =
     (case req of
        SnowflakeQuery q \<Rightarrow> Response 200 (JRows [opp_001])
      | DatabricksScore m d \<Rightarrow> Response 200 (JScored five_deals)
      | SalesforceUpdate i p n \<Rightarrow>
          if i = ''opp_c'' then Response 404 (JObject ''not found'')
          else Response 200 (JObject i)
      | SalesforceTask w s d \<Rightarrow> Response 200 (JObject ''task'')
      | SnowflakeInsert t d c v \<Rightarrow> Response 200 (JObject ''inserted''))"

text \<open>What a run against that session returns, and its trace.\<close>

definition reject_c_result :: workflow_success where
  "reject_c_result =
     \<lparr>res_opportunities = five_deals,
      res_tasks = [JObject ''task'', JObject ''task'', JObject ''task'', JObject ''task''],
      res_summary = [(''runDate'', JString ''2024-05-01''),
                     (''highPriorityCount'', JNumber 2),
                     (''totalPipelineValue'', JNumber 1500)],
      res_errors = [''opp_c'']\<rparr>"

definition reject_c_trace :: trace where
  "reject_c_trace =
     [Call fetch_request, Call (score_request [opp_001]),
      Call (update_request deal_a), Call (task_request ''2024-05-02'' deal_a),
      Call (update_request deal_b), Call (task_request ''2024-05-02'' deal_b),
      Call (update_request deal_c),
      Call (update_request deal_d), Call (task_request ''2024-05-02'' deal_d),
      Call (update_request deal_e), Call (task_request ''2024-05-02'' deal_e),
      Call (SnowflakeInsert ''analytics.fin_sales_priority_summary'' ''2024-05-01'' 2 1500)]"

text \<open>
  An empty session context, and stub handlers that all hand over to the data retriever,
  whatever they are given.
\<close>

definition ctx0 :: session_context where
  "ctx0 = \<lparr>ctx_role = Some ''admin'', ctx_conversation_history = Some [],
     ctx_messages = Some [], ctx_routing_reason = None, ctx_next_agent = None\<rparr>"



text \<open>A completion that names no capability, and stub handlers that end the chain.\<close>

definition vague_client :: "message list \<Rightarrow> exn + string" where
  "vague_client msgs = Inr ''I am not sure WHO should handle this.''"

definition finish :: handler where
  "finish s = Inr (s\<lparr>st_next := END\<rparr>)"

definition finishing_agents :: agents where
  "finishing_agents = \<lparr>coordinator = finish, route_optimizer = finish,
     fleet_monitor = finish, data_retriever = finish, notification = finish\<rparr>"

text \<open>A coordinator stub that names a capability the dispatcher does not know.\<close>

definition to_billing :: handler where
  "to_billing s = Inr (s\<lparr>st_next := ''billing''\<rparr>)"

definition lost_agents :: agents where
  "lost_agents = \<lparr>coordinator = to_billing, route_optimizer = finish,
     fleet_monitor = finish, data_retriever = finish, notification = finish\<rparr>"

definition hello_state :: state where
  "hello_state = \<lparr>st_input = ''hello'', st_context = ctx0, st_next = ''''\<rparr>"

section \<open>Properties of the mock scorer\<close>

lemma amount_factor_bounds: "0 \<le> amount_factor a \<and> amount_factor a \<le> 0.3"
  unfolding amount_factor_def min_def max_def by (simp split: if_splits)

lemma amount_factor_antimono: "a \<le> b \<Longrightarrow> amount_factor b \<le> amount_factor a"
  by (simp add: amount_factor_def min_def max_def)

lemma win_prob_bounds: "0.1 \<le> win_prob u opp \<and> win_prob u opp \<le> 0.9"
  unfolding win_prob_def min_def max_def by (simp split: if_splits)

lemma round_half_even_mono_int:
  assumes "of_int lo \<le> x" and "x \<le> of_int hi"
  shows "lo \<le> round_half_even x \<and> round_half_even x \<le> hi"
proof -
  have lo: "lo \<le> \<lfloor>x\<rfloor>" using assms(1) by (simp add: le_floor_iff)
  have hi: "\<lfloor>x\<rfloor> \<le> hi" using assms(2) by (simp add: floor_le_iff)
  show ?thesis
  proof (cases "x = of_int \<lfloor>x\<rfloor>")
    case True
    then have "x - of_int \<lfloor>x\<rfloor> < 1 / 2" by simp
    then have "round_half_even x = \<lfloor>x\<rfloor>" by (simp add: round_half_even_def Let_def)
    with lo hi show ?thesis by simp
  next
    case False
    have "of_int \<lfloor>x\<rfloor> \<le> x" by (rule of_int_floor_le)
    with False have "of_int \<lfloor>x\<rfloor> < x" by linarith
    then have "of_int \<lfloor>x\<rfloor> < (of_int hi :: real)" using assms(2) by linarith
    then have "\<lfloor>x\<rfloor> < hi" by simp
    then have up: "\<lfloor>x\<rfloor> + 1 \<le> hi" by simp
    have "round_half_even x = \<lfloor>x\<rfloor> \<or> round_half_even x = \<lfloor>x\<rfloor> + 1"
      by (simp add: round_half_even_def Let_def)
    with lo hi up show ?thesis by auto
  qed
qed

lemma round2_bounds:
  assumes "0.1 \<le> x" and "x \<le> 0.9"
  shows "0.1 \<le> round2 x \<and> round2 x \<le> 0.9"
proof -
  have a: "of_int 10 \<le> x * 100" using assms(1) by simp
  have b: "x * 100 \<le> of_int 90" using assms(2) by simp
  from round_half_even_mono_int [OF a b]
  have "10 \<le> round_half_even (x * 100)" and "round_half_even (x * 100) \<le> 90" by simp_all
  then have "(10::real) \<le> of_int (round_half_even (x * 100))"
    and "of_int (round_half_even (x * 100)) \<le> (90::real)"
    by (simp_all only: of_int_le_iff [symmetric, where ?'a = real] of_int_numeral)
  then show ?thesis by (simp add: round2_def)
qed

lemma mock_score_fields:
  "mock_winProbability (mock_score_opportunity u opp) = round2 (win_prob u opp)"
  "mock_nextBestProduct (mock_score_opportunity u opp) =
     next_product (get_industry opp) (win_prob u opp)"
  "raw_opportunity.truncate (mock_score_opportunity u opp) = opp"
  by (simp_all add: mock_score_opportunity_def Let_def raw_opportunity.defs
        scored_raw_opportunity.defs)

text \<open>
  C5. For every opportunity and every random draw, the win probability the mock scorer
  returns lies in [0.1, 0.9]: it is the two-decimal rounding of the base 0.5 plus the
  amount contribution plus the industry bonus plus the draw, clamped to [0.1, 0.9]; the
  amount contribution lies in [0, 0.3] and does not grow with the amount; the bonus is the
  fixed table value of the industry.
\<close>

theorem C5_mock_score_bounds:
  "0.1 \<le> mock_winProbability (mock_score_opportunity u opp)
   \<and> mock_winProbability (mock_score_opportunity u opp) \<le> 0.9
   \<and> mock_winProbability (mock_score_opportunity u opp) = round2 (win_prob u opp)
   \<and> win_prob u opp =
        max 0.1 (min 0.9 (0.5 + amount_factor (get_amount opp)
                          + industry_bonus (get_industry opp) + u))
   \<and> 0.1 \<le> win_prob u opp \<and> win_prob u opp \<le> 0.9
   \<and> 0 \<le> amount_factor a \<and> amount_factor a \<le> 0.3
   \<and> (a \<le> b \<longrightarrow> amount_factor b \<le> amount_factor a)
   \<and> industry_bonus ''Technology'' = 0.2 \<and> industry_bonus ''Healthcare'' = 0.15
   \<and> industry_bonus ''Finance'' = 0.1 \<and> industry_bonus ''Retail'' = 0.05
   \<and> (i \<notin> {''Technology'', ''Healthcare'', ''Finance'', ''Retail''} \<longrightarrow> industry_bonus i = 0)"
proof -
  have r: "0.1 \<le> round2 (win_prob u opp) \<and> round2 (win_prob u opp) \<le> 0.9"
    using win_prob_bounds [of u opp] by (intro round2_bounds) simp_all
  have w: "win_prob u opp =
        max 0.1 (min 0.9 (0.5 + amount_factor (get_amount opp)
                          + industry_bonus (get_industry opp) + u))"
    by (simp add: win_prob_def base_prob_def)
  have b: "industry_bonus ''Technology'' = 0.2" "industry_bonus ''Healthcare'' = 0.15"
    "industry_bonus ''Finance'' = 0.1" "industry_bonus ''Retail'' = 0.05"
    "i \<notin> {''Technology'', ''Healthcare'', ''Finance'', ''Retail''} \<longrightarrow> industry_bonus i = 0"
    by (simp_all add: industry_bonus_def)
  show ?thesis
    using r w b win_prob_bounds [of u opp] amount_factor_bounds [of a]
      amount_factor_antimono [of a b]
    by (simp only: mock_score_fields) blast
qed

theorem C5_mock_score_bounds_witness:
  "(100000::real) \<le> 900000 \<and> amount_factor 900000 \<le> amount_factor 100000
   \<and> ''Manufacturing'' \<notin> {''Technology'', ''Healthcare'', ''Finance'', ''Retail''}
   \<and> industry_bonus ''Manufacturing'' = 0
   \<and> 0.1 \<le> mock_winProbability (mock_score_opportunity 0 opp_001)
   \<and> mock_winProbability (mock_score_opportunity 0 opp_001) \<le> 0.9"
proof -
  note t = C5_mock_score_bounds [of 0 opp_001 100000 900000 "''Manufacturing''"]
  have h: "(100000::real) \<le> 900000" by simp
  have n: "''Manufacturing'' \<notin> {''Technology'', ''Healthcare'', ''Finance'', ''Retail''}"
    by simp
  show ?thesis using t h n by blast
qed

text \<open>
  C6. The product the mock scorer picks is a function of the industry and of the band of
  the computed (unrounded) win probability alone: the industry picks one of four
  three-product lists, the band picks the first product above 0.7, the second above 0.4
  and the third otherwise. The other keys of the opportunity are copied unchanged.
\<close>

theorem C6_next_product_by_industry_and_band:
  "mock_nextBestProduct (mock_score_opportunity u opp) =
     tier_product (industry_list (get_industry opp)) (band_of (win_prob u opp))
   \<and> length (products industry) = 3
   \<and> industry_list industry = (products industry ! 0, products industry ! 1, products industry ! 2)
   \<and> raw_opportunity.truncate (mock_score_opportunity u opp) = opp"
proof -
  have p: "mock_nextBestProduct (mock_score_opportunity u opp) =
     tier_product (industry_list (get_industry opp)) (band_of (win_prob u opp))"
    by (simp add: mock_score_fields next_product_def products_def industry_list_def band_of_def)
  have l: "length (products industry) = 3"
    by (simp add: products_def)
  have i: "industry_list industry
         = (products industry ! 0, products industry ! 1, products industry ! 2)"
    by (simp add: products_def industry_list_def)
  show ?thesis using p l i mock_score_fields(3) [of u opp] by simp
qed

section \<open>The retry loops\<close>

lemma for_attempts_skip:
  assumes "\<And>j. j < k \<Longrightarrow> body (a + j) (T j) = (Continue, T (Suc j))" and "a + k \<le> b"
  shows "for_attempts body after [a..<b] (T 0) = for_attempts body after [a + k..<b] (T k)"
  using assms
proof (induction k arbitrary: a T)
  case 0
  then show ?case by simp
next
  case (Suc k)
  have lt: "a < b" using Suc.prems(2) by simp
  have first: "body a (T 0) = (Continue, T (Suc 0))" using Suc.prems(1) [of 0] by simp
  have step: "\<And>j. j < k \<Longrightarrow> body (Suc a + j) ((T \<circ> Suc) j) = (Continue, (T \<circ> Suc) (Suc j))"
    using Suc.prems(1) by (metis Suc_less_eq add_Suc_right add_Suc comp_apply)
  have "for_attempts body after [a..<b] (T 0) = for_attempts body after [Suc a..<b] (T (Suc 0))"
    using lt first by (simp add: upt_conv_Cons)
  also have "\<dots> = for_attempts body after [Suc a + k..<b] ((T \<circ> Suc) k)"
    using Suc.IH [of "Suc a" "T \<circ> Suc"] step Suc.prems(2) by simp
  finally show ?case by simp
qed

lemma ncalls_simps:
  "ncalls [] = 0" "ncalls (Call r # tr) = Suc (ncalls tr)" "ncalls (Sleep d # tr) = ncalls tr"
  by (simp_all add: ncalls_def)

lemma retries_Suc: "retries cfg req (Suc k) = retries cfg req k @ [Call req, Sleep (backoff_time cfg k)]"
  by (simp add: retries_def)

lemma ncalls_append: "ncalls (xs @ ys) = ncalls xs + ncalls ys"
  by (simp add: ncalls_def)

lemma ncalls_retries: "ncalls (retries cfg req k) = k"
  by (induction k) (simp_all add: retries_Suc ncalls_append, simp_all add: ncalls_def retries_def)

lemma sleeps_retries:
  "[d. Sleep d \<leftarrow> retries cfg req k] = map (\<lambda>i. backoff_factor cfg * 2 ^ i) [0..<k]"
  by (induction k) (simp_all add: retries_Suc backoff_time_def, simp add: retries_def)

lemma retry_loop_success:
  assumes steps: "\<And>j. j < k \<Longrightarrow> body j (tr @ retries cfg req j) = (Continue, tr @ retries cfg req (Suc j))"
    and last: "body k (tr @ retries cfg req k) = (Return x, tr @ retries cfg req k @ [Call req])"
    and k: "k \<le> R"
  shows "for_attempts body after [0..<R + 1] tr = (Inr x, tr @ retries cfg req k @ [Call req])"
proof -
  have "for_attempts body after [0..<R + 1] ((\<lambda>j. tr @ retries cfg req j) 0)
      = for_attempts body after [0 + k..<R + 1] ((\<lambda>j. tr @ retries cfg req j) k)"
    using steps k by (intro for_attempts_skip) simp_all
  moreover have "[k..<R + 1] = k # [Suc k..<R + 1]" using k by (simp add: upt_conv_Cons)
  ultimately show ?thesis using last by (simp add: retries_def)
qed

lemma retry_loop_exhausted:
  assumes steps: "\<And>j. j < R \<Longrightarrow> body j (tr @ retries cfg req j) = (Continue, tr @ retries cfg req (Suc j))"
    and last: "body R (tr @ retries cfg req R) = (Raise e, tr @ retries cfg req R @ [Call req])"
  shows "for_attempts body after [0..<R + 1] tr = (Inl e, tr @ retries cfg req R @ [Call req])"
proof -
  have "for_attempts body after [0..<R + 1] ((\<lambda>j. tr @ retries cfg req j) 0)
      = for_attempts body after [0 + R..<R + 1] ((\<lambda>j. tr @ retries cfg req j) R)"
    using steps by (intro for_attempts_skip) simp_all
  then show ?thesis using last by (simp add: retries_def)
qed

lemma fetch_attempt_retriable:
  assumes "retriable (srv (ncalls tr + j) fetch_request)" and "j < max_retries cfg"
  shows "fetch_attempt cfg srv j (tr @ retries cfg fetch_request j)
       = (Continue, tr @ retries cfg fetch_request (Suc j))"
  using assms
  by (auto simp: fetch_request_def fetch_attempt_def send_def sleep_def except_retry_def retriable_def retries_Suc
        ncalls_append ncalls_retries split: response.splits)

lemma fetch_attempt_last:
  assumes "retriable (srv (ncalls tr + max_retries cfg) fetch_request)"
  shows "fetch_attempt cfg srv (max_retries cfg) (tr @ retries cfg fetch_request (max_retries cfg))
       = (Raise (raised_by (srv (ncalls tr + max_retries cfg) fetch_request)),
          tr @ retries cfg fetch_request (max_retries cfg) @ [Call fetch_request])"
  using assms
  by (auto simp: fetch_request_def fetch_attempt_def send_def sleep_def except_retry_def retriable_def
        ncalls_append ncalls_retries split: response.splits)

lemma fetch_attempt_ok:
  assumes "srv (ncalls tr + k) fetch_request = Response 200 (JRows rows)"
  shows "fetch_attempt cfg srv k (tr @ retries cfg fetch_request k)
       = (Return rows, tr @ retries cfg fetch_request k @ [Call fetch_request])"
  using assms
  by (simp add: fetch_request_def fetch_attempt_def send_def ncalls_append ncalls_retries)

lemma score_attempt_retriable:
  assumes "retriable (srv (ncalls tr + j) (score_request opps))" and "j < max_retries cfg"
  shows "score_attempt cfg srv opps j (tr @ retries cfg (score_request opps) j)
       = (Continue, tr @ retries cfg (score_request opps) (Suc j))"
  using assms
  by (auto simp: score_request_def score_attempt_def send_def sleep_def except_score_def
        retriable_def retries_Suc ncalls_append ncalls_retries split: response.splits)

lemma score_attempt_last:
  assumes "retriable (srv (ncalls tr + max_retries cfg) (score_request opps))"
  shows "score_attempt cfg srv opps (max_retries cfg)
           (tr @ retries cfg (score_request opps) (max_retries cfg))
       = (Raise (score_raised_by (srv (ncalls tr + max_retries cfg) (score_request opps))),
          tr @ retries cfg (score_request opps) (max_retries cfg) @ [Call (score_request opps)])"
  using assms
  by (auto simp: score_request_def score_attempt_def send_def sleep_def except_score_def
        retriable_def ncalls_append ncalls_retries split: response.splits)

lemma score_attempt_ok:
  assumes "srv (ncalls tr + k) (score_request opps) = Response 200 (JScored scored)"
  shows "score_attempt cfg srv opps k (tr @ retries cfg (score_request opps) k)
       = (Return scored, tr @ retries cfg (score_request opps) k @ [Call (score_request opps)])"
  using assms
  by (simp add: score_request_def score_attempt_def send_def ncalls_append ncalls_retries)

lemma write_attempt_retriable:
  assumes "retriable (srv (ncalls tr + j) (summary_request today sd))" and "j < max_retries cfg"
  shows "write_attempt cfg srv today sd j (tr @ retries cfg (summary_request today sd) j)
       = (Continue, tr @ retries cfg (summary_request today sd) (Suc j))"
  using assms
  by (auto simp: write_attempt_def send_def sleep_def except_retry_def
        retriable_def retries_Suc ncalls_append ncalls_retries split: response.splits)

lemma write_attempt_last:
  assumes "retriable (srv (ncalls tr + max_retries cfg) (summary_request today sd))"
  shows "write_attempt cfg srv today sd (max_retries cfg)
           (tr @ retries cfg (summary_request today sd) (max_retries cfg))
       = (Raise (raised_by (srv (ncalls tr + max_retries cfg) (summary_request today sd))),
          tr @ retries cfg (summary_request today sd) (max_retries cfg)
             @ [Call (summary_request today sd)])"
  using assms
  by (auto simp: write_attempt_def send_def sleep_def except_retry_def
        retriable_def ncalls_append ncalls_retries split: response.splits)

lemma write_attempt_ok:
  assumes "srv (ncalls tr + k) (summary_request today sd) = Response 200 b" and "b \<noteq> JInvalid"
  shows "write_attempt cfg srv today sd k (tr @ retries cfg (summary_request today sd) k)
       = (Return b, tr @ retries cfg (summary_request today sd) k
            @ [Call (summary_request today sd)])"
  using assms
  by (simp add: write_attempt_def send_def ncalls_append ncalls_retries)

lemma fetch_retry_success:
  assumes "k \<le> max_retries cfg"
    and "\<forall>j<k. retriable (srv (ncalls tr + j) fetch_request)"
    and "srv (ncalls tr + k) fetch_request = Response 200 (JRows rows)"
  shows "fetch_opportunities cfg srv tr
       = (Inr rows, tr @ retries cfg fetch_request k @ [Call fetch_request])"
  unfolding fetch_opportunities_def
  using assms
  by (intro retry_loop_success fetch_attempt_retriable fetch_attempt_ok) simp_all

lemma fetch_retry_exhausted:
  assumes "\<forall>j\<le>max_retries cfg. retriable (srv (ncalls tr + j) fetch_request)"
  shows "fetch_opportunities cfg srv tr
       = (Inl (raised_by (srv (ncalls tr + max_retries cfg) fetch_request)),
          tr @ retries cfg fetch_request (max_retries cfg) @ [Call fetch_request])"
  unfolding fetch_opportunities_def
  using assms
  by (intro retry_loop_exhausted fetch_attempt_retriable fetch_attempt_last) simp_all

lemma score_retry_success:
  assumes "k \<le> max_retries cfg" and "opps \<noteq> []"
    and "\<forall>j<k. retriable (srv (ncalls tr + j) (score_request opps))"
    and "srv (ncalls tr + k) (score_request opps) = Response 200 (JScored scored)"
  shows "score_opportunities cfg srv opps tr
       = (Inr scored, tr @ retries cfg (score_request opps) k @ [Call (score_request opps)])"
proof -
  have "for_attempts (score_attempt cfg srv opps)
          (Exception ''Failed to score opportunities in Databricks'')
          [0..<max_retries cfg + 1] tr
      = (Inr scored, tr @ retries cfg (score_request opps) k @ [Call (score_request opps)])"
    using assms
    by (intro retry_loop_success score_attempt_retriable score_attempt_ok) simp_all
  then show ?thesis using assms(2) by (simp add: score_opportunities_def)
qed

lemma score_retry_exhausted:
  assumes "opps \<noteq> []"
    and "\<forall>j\<le>max_retries cfg. retriable (srv (ncalls tr + j) (score_request opps))"
  shows "score_opportunities cfg srv opps tr
       = (Inl (score_raised_by (srv (ncalls tr + max_retries cfg) (score_request opps))),
          tr @ retries cfg (score_request opps) (max_retries cfg) @ [Call (score_request opps)])"
proof -
  have "for_attempts (score_attempt cfg srv opps)
          (Exception ''Failed to score opportunities in Databricks'')
          [0..<max_retries cfg + 1] tr
      = (Inl (score_raised_by (srv (ncalls tr + max_retries cfg) (score_request opps))),
          tr @ retries cfg (score_request opps) (max_retries cfg) @ [Call (score_request opps)])"
    using assms
    by (intro retry_loop_exhausted score_attempt_retriable score_attempt_last) simp_all
  then show ?thesis using assms(1) by (simp add: score_opportunities_def)
qed

lemma write_retry_success:
  assumes "k \<le> max_retries cfg"
    and "\<forall>j<k. retriable (srv (ncalls tr + j) (summary_request today sd))"
    and "srv (ncalls tr + k) (summary_request today sd) = Response 200 b" and "b \<noteq> JInvalid"
  shows "write_summary cfg srv today sd tr
       = (Inr b, tr @ retries cfg (summary_request today sd) k
            @ [Call (summary_request today sd)])"
  unfolding write_summary_def
  using assms
  by (intro retry_loop_success write_attempt_retriable write_attempt_ok) simp_all

lemma write_retry_exhausted:
  assumes "\<forall>j\<le>max_retries cfg. retriable (srv (ncalls tr + j) (summary_request today sd))"
  shows "write_summary cfg srv today sd tr
       = (Inl (raised_by (srv (ncalls tr + max_retries cfg) (summary_request today sd))),
          tr @ retries cfg (summary_request today sd) (max_retries cfg)
            @ [Call (summary_request today sd)])"
  unfolding write_summary_def
  using assms
  by (intro retry_loop_exhausted write_attempt_retriable write_attempt_last) simp_all

text \<open>
  C3. Fetch, Score and WriteSummary under the retry policy: when the call fails with a
  retriable outcome (5xx or a raised transport error) exactly \<open>k\<close> times, \<open>k\<close> no larger
  than \<open>max_retries\<close>, and then succeeds, the wrapper returns the success result, has sent
  the request \<open>k + 1\<close> times, and has slept \<open>backoff_factor * 2 ^ i\<close> after the failed
  attempt \<open>i\<close>; when all \<open>max_retries + 1\<close> attempts fail that way, the wrapper raises
  an exception that carries the last status or transport error. (Score sends nothing when
  it is given no opportunities.)
\<close>

theorem C3_retry_policy:
  assumes "k \<le> max_retries cfg"
  shows
    "((\<forall>j<k. retriable (srv (ncalls tr + j) fetch_request))
        \<and> srv (ncalls tr + k) fetch_request = Response 200 (JRows rows)
      \<longrightarrow> fetch_opportunities cfg srv tr
            = (Inr rows, tr @ retries cfg fetch_request k @ [Call fetch_request]))
     \<and> (opps \<noteq> [] \<and> (\<forall>j<k. retriable (srv (ncalls tr + j) (score_request opps)))
        \<and> srv (ncalls tr + k) (score_request opps) = Response 200 (JScored scored)
      \<longrightarrow> score_opportunities cfg srv opps tr
            = (Inr scored, tr @ retries cfg (score_request opps) k @ [Call (score_request opps)]))
     \<and> ((\<forall>j<k. retriable (srv (ncalls tr + j) (summary_request today sd)))
        \<and> srv (ncalls tr + k) (summary_request today sd) = Response 200 b \<and> b \<noteq> JInvalid
      \<longrightarrow> write_summary cfg srv today sd tr
            = (Inr b, tr @ retries cfg (summary_request today sd) k
                 @ [Call (summary_request today sd)]))
     \<and> ((\<forall>j\<le>max_retries cfg. retriable (srv' (ncalls tr + j) fetch_request))
      \<longrightarrow> fetch_opportunities cfg srv' tr
            = (Inl (raised_by (srv' (ncalls tr + max_retries cfg) fetch_request)),
               tr @ retries cfg fetch_request (max_retries cfg) @ [Call fetch_request]))
     \<and> (opps \<noteq> [] \<and> (\<forall>j\<le>max_retries cfg. retriable (srv' (ncalls tr + j) (score_request opps)))
      \<longrightarrow> score_opportunities cfg srv' opps tr
            = (Inl (score_raised_by (srv' (ncalls tr + max_retries cfg) (score_request opps))),
               tr @ retries cfg (score_request opps) (max_retries cfg)
                 @ [Call (score_request opps)]))
     \<and> ((\<forall>j\<le>max_retries cfg. retriable (srv' (ncalls tr + j) (summary_request today sd)))
      \<longrightarrow> write_summary cfg srv' today sd tr
            = (Inl (raised_by (srv' (ncalls tr + max_retries cfg) (summary_request today sd))),
               tr @ retries cfg (summary_request today sd) (max_retries cfg)
                 @ [Call (summary_request today sd)]))
     \<and> ncalls (retries cfg req k @ [Call req]) = k + 1
     \<and> [d. Sleep d \<leftarrow> retries cfg req k @ [Call req]]
         = map (\<lambda>i. backoff_factor cfg * 2 ^ i) [0..<k]"
proof -
  have n: "ncalls (retries cfg req k @ [Call req]) = k + 1"
    by (simp add: ncalls_append ncalls_retries) (simp add: ncalls_def)
  have s: "[d. Sleep d \<leftarrow> retries cfg req k @ [Call req]]
         = map (\<lambda>i. backoff_factor cfg * 2 ^ i) [0..<k]"
    using sleeps_retries [of cfg req k] by simp
  show ?thesis
    using assms n s
      fetch_retry_success [of k cfg srv tr rows]
      score_retry_success [of k cfg opps srv tr scored]
      write_retry_success [of k cfg srv tr today sd b]
      fetch_retry_exhausted [of cfg srv' tr]
      score_retry_exhausted [of opps cfg srv' tr]
      write_retry_exhausted [of cfg srv' tr today sd]
    by blast
qed

theorem C3_retry_policy_witness:
  "fetch_opportunities default_retry_config flaky_once []
     = (Inr [opp_001], [Call fetch_request, Sleep 1.5, Call fetch_request])
   \<and> score_opportunities default_retry_config flaky_once [opp_001] []
     = (Inr [deal_a], [Call (score_request [opp_001]), Sleep 1.5, Call (score_request [opp_001])])
   \<and> write_summary default_retry_config flaky_once ''2024-05-01'' sf_init []
     = (Inr (JObject ''ok''), [Call (summary_request ''2024-05-01'' sf_init), Sleep 1.5,
          Call (summary_request ''2024-05-01'' sf_init)])
   \<and> fetch_opportunities default_retry_config always_503 []
     = (Inl (ClientResponseError 503),
        [Call fetch_request, Sleep 1.5, Call fetch_request, Sleep 3, Call fetch_request])
   \<and> score_opportunities default_retry_config always_503 [opp_001] []
     = (Inl (CriticalDatabricks (ScoringFailed 503)),
        [Call (score_request [opp_001]), Sleep 1.5, Call (score_request [opp_001]), Sleep 3,
         Call (score_request [opp_001])])
   \<and> write_summary default_retry_config always_503 ''2024-05-01'' sf_init []
     = (Inl (ClientResponseError 503),
        [Call (summary_request ''2024-05-01'' sf_init), Sleep 1.5,
         Call (summary_request ''2024-05-01'' sf_init), Sleep 3,
         Call (summary_request ''2024-05-01'' sf_init)])"
proof -
  have k: "(1::nat) \<le> max_retries default_retry_config" by (simp add: default_retry_config_def)
  note t = C3_retry_policy [OF k, of flaky_once "[]" "[opp_001]" "[opp_001]" "[deal_a]"
      "''2024-05-01''" sf_init "JObject ''ok''" always_503 fetch_request]
  have h1: "\<forall>j<1. retriable (flaky_once (ncalls [] + j) r)" for r
    by (simp add: flaky_once_def retriable_def ncalls_def)
  have h2: "flaky_once (ncalls [] + 1) fetch_request = Response 200 (JRows [opp_001])"
    "flaky_once (ncalls [] + 1) (score_request [opp_001]) = Response 200 (JScored [deal_a])"
    "flaky_once (ncalls [] + 1) (summary_request ''2024-05-01'' sf_init) = Response 200 (JObject ''ok'')"
    by (simp_all add: ncalls_def flaky_once_def fetch_request_def score_request_def summary_request_def)
  have h3: "\<forall>j\<le>max_retries default_retry_config. retriable (always_503 (ncalls [] + j) r)" for r
    by (simp add: always_503_def retriable_def ncalls_def)
  have m: "max_retries default_retry_config = 2" "backoff_time default_retry_config 0 = 1.5"
    "backoff_time default_retry_config 1 = 3"
    by (simp_all add: default_retry_config_def backoff_time_def)
  have f: "fetch_opportunities default_retry_config flaky_once []
       = (Inr [opp_001], [] @ retries default_retry_config fetch_request 1 @ [Call fetch_request])"
    "score_opportunities default_retry_config flaky_once [opp_001] []
       = (Inr [deal_a], [] @ retries default_retry_config (score_request [opp_001]) 1
            @ [Call (score_request [opp_001])])"
    "write_summary default_retry_config flaky_once ''2024-05-01'' sf_init []
       = (Inr (JObject ''ok''), [] @ retries default_retry_config
            (summary_request ''2024-05-01'' sf_init) 1
            @ [Call (summary_request ''2024-05-01'' sf_init)])"
    using t h1 h2 by blast+
  have g: "fetch_opportunities default_retry_config always_503 []
       = (Inl (raised_by (always_503 (ncalls [] + max_retries default_retry_config) fetch_request)),
          [] @ retries default_retry_config fetch_request (max_retries default_retry_config)
            @ [Call fetch_request])"
    "score_opportunities default_retry_config always_503 [opp_001] []
       = (Inl (score_raised_by (always_503 (ncalls [] + max_retries default_retry_config)
                 (score_request [opp_001]))),
          [] @ retries default_retry_config (score_request [opp_001])
                 (max_retries default_retry_config)
            @ [Call (score_request [opp_001])])"
    "write_summary default_retry_config always_503 ''2024-05-01'' sf_init []
       = (Inl (raised_by (always_503 (ncalls [] + max_retries default_retry_config)
                 (summary_request ''2024-05-01'' sf_init))),
          [] @ retries default_retry_config (summary_request ''2024-05-01'' sf_init)
                 (max_retries default_retry_config)
            @ [Call (summary_request ''2024-05-01'' sf_init)])"
    using t h3 by blast+
  have r1: "retries default_retry_config r 1 = [Call r, Sleep 1.5]" for r
    by (simp add: retries_def backoff_time_def default_retry_config_def)
  have r2: "retries default_retry_config r (max_retries default_retry_config)
      = [Call r, Sleep 1.5, Call r, Sleep 3]" for r
    by (simp add: retries_def backoff_time_def default_retry_config_def numeral_2_eq_2)
  show ?thesis
    unfolding f g r1 r2 by (simp add: always_503_def)
qed

section \<open>A failing Score stage stops the run\<close>

lemma grows_refl: "grows P tr tr"
  by (simp add: grows_def)

lemma grows_trans: "grows P a b \<Longrightarrow> grows P b c \<Longrightarrow> grows P a c"
  by (auto simp: grows_def)

lemma grows_later: "grows P tr tr' \<Longrightarrow> tr' = tr @ later_events tr tr' \<and> list_all P (later_events tr tr')"
  by (auto simp: grows_def later_events_def)

lemma for_attempts_grows:
  assumes "\<And>a t. grows P t (snd (body a t))"
  shows "grows P tr (snd (for_attempts body after as tr))"
proof (induction as arbitrary: tr)
  case Nil
  show ?case by (simp add: grows_refl)
next
  case (Cons a as)
  obtain r tr1 where b: "body a tr = (r, tr1)" by (cases "body a tr")
  have g: "grows P tr tr1" using assms [of tr a] b by simp
  show ?case
  proof (cases r)
    case Continue
    then show ?thesis using b g Cons.IH [of tr1] by (auto intro: grows_trans)
  qed (use b g in simp_all)
qed

lemma fetch_attempt_grows: "grows early_event t (snd (fetch_attempt cfg srv a t))"
  by (auto simp: grows_def fetch_attempt_def send_def sleep_def except_retry_def
      split: response.splits body.splits)

lemma score_attempt_grows: "grows early_event t (snd (score_attempt cfg srv opps a t))"
  by (auto simp: grows_def score_attempt_def send_def sleep_def except_score_def
      split: response.splits body.splits)

lemma fetch_grows: "grows early_event tr (snd (fetch_opportunities cfg srv tr))"
  unfolding fetch_opportunities_def by (intro for_attempts_grows fetch_attempt_grows)

lemma score_grows: "grows early_event tr (snd (score_opportunities cfg srv opps tr))"
  unfolding score_opportunities_def
  by (auto intro: for_attempts_grows score_attempt_grows grows_refl)

lemma early_not_late:
  "list_all early_event evs \<Longrightarrow>
     filter is_update_record evs = [] \<and> filter is_create_follow_up evs = []
     \<and> filter is_write_summary evs = []"
proof (induction evs)
  case (Cons ev evs)
  then show ?case
    by (cases ev rule: early_event.cases) simp_all
qed simp

lemma score_attempt_4xx:
  assumes "srv (ncalls tr + j) (score_request opps) = Response st b" and "400 \<le> st" "st < 500"
    and "j < max_retries cfg"
  shows "score_attempt cfg srv opps j (tr @ retries cfg (score_request opps) j)
       = (Continue, tr @ retries cfg (score_request opps) (Suc j))"
  using assms
  by (auto simp: score_request_def score_attempt_def send_def sleep_def except_score_def
        retries_Suc ncalls_append ncalls_retries)

lemma score_attempt_4xx_last:
  assumes "srv (ncalls tr + max_retries cfg) (score_request opps) = Response st b" and "400 \<le> st" "st < 500"
  shows "score_attempt cfg srv opps (max_retries cfg)
           (tr @ retries cfg (score_request opps) (max_retries cfg))
       = (Raise (CriticalDatabricks (ScoringFailed st)),
          tr @ retries cfg (score_request opps) (max_retries cfg) @ [Call (score_request opps)])"
  using assms
  by (auto simp: score_request_def score_attempt_def send_def sleep_def except_score_def
        ncalls_append ncalls_retries)

lemma score_forced_4xx:
  assumes "opps \<noteq> []"
    and "\<forall>j\<le>max_retries cfg. \<exists>st b. srv (ncalls tr + j) (score_request opps) = Response st b \<and> 400 \<le> st \<and> st < 500"
  shows "\<exists>st. score_opportunities cfg srv opps tr
       = (Inl (CriticalDatabricks (ScoringFailed st)),
          tr @ retries cfg (score_request opps) (max_retries cfg) @ [Call (score_request opps)])"
proof -
  obtain st b where l: "srv (ncalls tr + max_retries cfg) (score_request opps) = Response st b"
    "400 \<le> st" "st < 500" using assms(2) by blast
  have steps: "\<And>j. j < max_retries cfg \<Longrightarrow>
     score_attempt cfg srv opps j (tr @ retries cfg (score_request opps) j)
       = (Continue, tr @ retries cfg (score_request opps) (Suc j))"
  proof -
    fix j assume j: "j < max_retries cfg"
    then obtain s c where "srv (ncalls tr + j) (score_request opps) = Response s c" "400 \<le> s" "s < 500"
      using assms(2) by (meson less_imp_le)
    then show "score_attempt cfg srv opps j (tr @ retries cfg (score_request opps) j)
       = (Continue, tr @ retries cfg (score_request opps) (Suc j))"
      using j by (rule score_attempt_4xx)
  qed
  have "for_attempts (score_attempt cfg srv opps)
          (Exception ''Failed to score opportunities in Databricks'')
          [0..<max_retries cfg + 1] tr
      = (Inl (CriticalDatabricks (ScoringFailed st)),
          tr @ retries cfg (score_request opps) (max_retries cfg) @ [Call (score_request opps)])"
    using steps score_attempt_4xx_last [of srv tr cfg opps st b] l
    by (intro retry_loop_exhausted) simp_all
  then show ?thesis using assms(1) by (auto simp: score_opportunities_def)
qed

text \<open>
  C1. When Fetch has returned and Score raises, the workflow returns the error result
  with the raised exception as its message, and the events of the run contain no
  UpdateRecord, CreateFollowUp or WriteSummary call. A Score endpoint that answers 4xx
  to every attempt makes Score raise.
\<close>

theorem C1_score_failure_aborts:
  assumes "fetch_opportunities cfg srv tr = (Inr opps, tr1)"
  shows
    "(score_opportunities cfg srv opps tr1 = (Inl e, tr2) \<longrightarrow>
        run_workflow cfg srv today tomorrow tr = (Error e, tr2)
        \<and> result_status (fst (run_workflow cfg srv today tomorrow tr)) = ''error''
        \<and> tr2 = tr @ later_events tr tr2
        \<and> filter is_update_record (later_events tr tr2) = []
        \<and> filter is_create_follow_up (later_events tr tr2) = []
        \<and> filter is_write_summary (later_events tr tr2) = [])
     \<and> (opps \<noteq> []
          \<and> (\<forall>j\<le>max_retries cfg. \<exists>st b. srv (ncalls tr1 + j) (score_request opps) = Response st b
                \<and> 400 \<le> st \<and> st < 500)
        \<longrightarrow> (\<exists>st. fst (score_opportunities cfg srv opps tr1)
                     = Inl (CriticalDatabricks (ScoringFailed st))))"
proof -
  have a: "run_workflow cfg srv today tomorrow tr = (Error e, tr2)"
    if "score_opportunities cfg srv opps tr1 = (Inl e, tr2)"
    using assms that by (simp add: run_workflow_def)
  have g1: "grows early_event tr tr1" using fetch_grows [of tr cfg srv] assms by simp
  have g: "grows early_event tr tr2" if "score_opportunities cfg srv opps tr1 = (Inl e, tr2)"
    using g1 score_grows [of tr1 cfg srv opps] that by (auto intro: grows_trans)
  have b: "tr2 = tr @ later_events tr tr2
        \<and> filter is_update_record (later_events tr tr2) = []
        \<and> filter is_create_follow_up (later_events tr tr2) = []
        \<and> filter is_write_summary (later_events tr tr2) = []"
    if "score_opportunities cfg srv opps tr1 = (Inl e, tr2)"
    using grows_later [OF g [OF that]] early_not_late by blast
  have c: "\<exists>st. fst (score_opportunities cfg srv opps tr1)
                     = Inl (CriticalDatabricks (ScoringFailed st))"
    if "opps \<noteq> []" "\<forall>j\<le>max_retries cfg. \<exists>st b. srv (ncalls tr1 + j) (score_request opps) = Response st b
                \<and> 400 \<le> st \<and> st < 500"
    using score_forced_4xx [of opps cfg srv tr1] that by auto
  show ?thesis using a b c by simp
qed

theorem C1_score_failure_aborts_witness:
  "run_workflow default_retry_config score_400 ''2024-05-01'' ''2024-05-02'' []
     = (Error (CriticalDatabricks (ScoringFailed 400)),
        [Call fetch_request, Call (score_request [opp_001]), Sleep 1.5,
         Call (score_request [opp_001]), Sleep 3, Call (score_request [opp_001])])
   \<and> filter is_update_record
        [Call fetch_request, Call (score_request [opp_001]), Sleep 1.5,
         Call (score_request [opp_001]), Sleep 3, Call (score_request [opp_001])] = []
   \<and> filter is_create_follow_up
        [Call fetch_request, Call (score_request [opp_001]), Sleep 1.5,
         Call (score_request [opp_001]), Sleep 3, Call (score_request [opp_001])] = []
   \<and> filter is_write_summary
        [Call fetch_request, Call (score_request [opp_001]), Sleep 1.5,
         Call (score_request [opp_001]), Sleep 3, Call (score_request [opp_001])] = []
   \<and> (\<exists>st. fst (score_opportunities default_retry_config score_400 [opp_001]
                   [Call fetch_request])
              = Inl (CriticalDatabricks (ScoringFailed st)))"
proof -
  have u: "[0..<max_retries default_retry_config + 1] = [0, 1, 2]"
    by (simp add: default_retry_config_def upt_rec)
  have f: "fetch_opportunities default_retry_config score_400 [] = (Inr [opp_001], [Call fetch_request])"
    unfolding fetch_opportunities_def u
    by (simp add: fetch_attempt_def send_def score_400_def fetch_request_def)
  have s: "score_opportunities default_retry_config score_400 [opp_001] [Call fetch_request]
     = (Inl (CriticalDatabricks (ScoringFailed 400)),
        [Call fetch_request, Call (score_request [opp_001]), Sleep 1.5,
         Call (score_request [opp_001]), Sleep 3, Call (score_request [opp_001])])"
    unfolding score_opportunities_def u
    by (simp add: score_attempt_def send_def sleep_def score_400_def
          score_request_def except_score_def default_retry_config_def backoff_time_def)
  note t = C1_score_failure_aborts [OF f, of "CriticalDatabricks (ScoringFailed 400)"
     "[Call fetch_request, Call (score_request [opp_001]), Sleep 1.5,
         Call (score_request [opp_001]), Sleep 3, Call (score_request [opp_001])]"
     "''2024-05-01''" "''2024-05-02''"]
  have h: "[opp_001] \<noteq> []
     \<and> (\<forall>j\<le>max_retries default_retry_config. \<exists>st b.
           score_400 (ncalls [Call fetch_request] + j) (score_request [opp_001]) = Response st b
           \<and> 400 \<le> st \<and> st < 500)"
    by (simp add: score_400_def score_request_def)
  have e: "\<exists>st. fst (score_opportunities default_retry_config score_400 [opp_001]
                   [Call fetch_request])
              = Inl (CriticalDatabricks (ScoringFailed st))"
    using t h by blast
  from t s e show ?thesis by (simp add: later_events_def)
qed

section \<open>UpdateRecords, record by record\<close>

lemma retried_0: "retried cfg req a 0 = []"
  by (simp add: retried_def)

lemma retried_Suc: "retried cfg req a (Suc r) = [Sleep (backoff_time cfg a), Call req] @ retried cfg req (Suc a) r"
proof -
  have "[a..<a + Suc r] = a # [Suc a..<Suc a + r]"
    by (subst upt_rec) simp
  then show ?thesis unfolding retried_def by simp
qed

lemma retry_update_success:
  assumes "a + r < R"
    and "\<forall>j<r. \<exists>s c. srv (ncalls tr + j) req = Response s c \<and> s \<noteq> 200"
    and "srv (ncalls tr + r) req = Response 200 rb" and "rb \<noteq> JInvalid"
  shows "retry_update cfg srv req [a..<R] tr = (RetrySuccess rb, tr @ retried cfg req a (Suc r))"
  using assms
proof (induction r arbitrary: a tr)
  case 0
  have l: "[a..<R] = a # [Suc a..<R]" using 0(1) by (simp add: upt_conv_Cons)
  show ?case using 0 unfolding l
    by (simp add: send_def sleep_def ncalls_append ncalls_simps retried_Suc retried_0)
next
  case (Suc r)
  have l: "[a..<R] = a # [Suc a..<R]" using Suc.prems(1) by (simp add: upt_conv_Cons)
  obtain s c where f: "srv (ncalls tr) req = Response s c" "s \<noteq> 200"
    using Suc.prems(2) by force
  let ?tr1 = "tr @ [Sleep (backoff_time cfg a), Call req]"
  have n: "ncalls ?tr1 = Suc (ncalls tr)" by (simp add: ncalls_append ncalls_simps)
  have h: "\<forall>j<r. \<exists>s c. srv (ncalls ?tr1 + j) req = Response s c \<and> s \<noteq> 200"
    using Suc.prems(2) unfolding n by (metis Suc_less_eq add_Suc_shift)
  have k: "srv (ncalls ?tr1 + r) req = Response 200 rb" using Suc.prems(3) unfolding n by simp
  have "retry_update cfg srv req [a..<R] tr = retry_update cfg srv req [Suc a..<R] ?tr1"
    unfolding l using f by (simp add: send_def sleep_def ncalls_append ncalls_simps)
  also have "\<dots> = (RetrySuccess rb, ?tr1 @ retried cfg req (Suc a) (Suc r))"
    using Suc.IH [of "Suc a" ?tr1] Suc.prems(1,4) h k by simp
  finally show ?case by (simp add: retried_Suc [of cfg req a "Suc r"])
qed

text \<open>
  C10. An opportunity whose update is answered 5xx at first and 200 by one of the inline
  retries (the retries before it answering other statuses) is appended to
  \<open>updated_records\<close> and nothing else changes: no follow-up task is requested for it
  and, whatever its win probability, neither the high-priority count nor the pipeline
  value moves. An opportunity whose update is answered 200 at once gets its follow-up
  request and, above 0.8, is counted and its amount added.
\<close>

theorem C10_retry_success_not_followed_up:
  "(srv (ncalls tr) (update_request opp) = Response st b \<and> 500 \<le> st \<and> st < 600
      \<and> r < max_retries cfg
      \<and> (\<forall>j<r. \<exists>s c. srv (ncalls tr + 1 + j) (update_request opp) = Response s c \<and> s \<noteq> 200)
      \<and> srv (ncalls tr + 1 + r) (update_request opp) = Response 200 rb \<and> rb \<noteq> JInvalid
    \<longrightarrow> update_one cfg srv tomorrow opp (acc, tr)
          = (acc\<lparr>updated_records := updated_records acc @ [rb]\<rparr>,
             tr @ [Call (update_request opp)] @ retried cfg (update_request opp) 0 (Suc r))
        \<and> filter is_create_follow_up
             ([Call (update_request opp)] @ retried cfg (update_request opp) 0 (Suc r)) = [])
   \<and> (srv (ncalls tr) (update_request opp) = Response 200 rb \<and> rb \<noteq> JInvalid
      \<and> srv (ncalls tr + 1) (task_request tomorrow opp) = Response 200 tb \<and> tb \<noteq> JInvalid
      \<and> winProbability opp > 0.8
    \<longrightarrow> update_one cfg srv tomorrow opp (acc, tr)
          = (acc\<lparr>updated_records := updated_records acc @ [rb],
                  created_tasks := created_tasks acc @ [tb],
                  high_priority_count := high_priority_count acc + 1,
                  total_pipeline_value := total_pipeline_value acc + amount opp\<rparr>,
             tr @ [Call (update_request opp), Call (task_request tomorrow opp)]))"
proof -
  have A: "update_one cfg srv tomorrow opp (acc, tr)
          = (acc\<lparr>updated_records := updated_records acc @ [rb]\<rparr>,
             tr @ [Call (update_request opp)] @ retried cfg (update_request opp) 0 (Suc r))"
    if h: "srv (ncalls tr) (update_request opp) = Response st b" "500 \<le> st" "st < 600"
      "r < max_retries cfg"
      "\<forall>j<r. \<exists>s c. srv (ncalls tr + 1 + j) (update_request opp) = Response s c \<and> s \<noteq> 200"
      "srv (ncalls tr + 1 + r) (update_request opp) = Response 200 rb" "rb \<noteq> JInvalid"
  proof -
    let ?tr1 = "tr @ [Call (update_request opp)]"
    have n: "ncalls ?tr1 = ncalls tr + 1" by (simp add: ncalls_append ncalls_simps)
    have "retry_update cfg srv (update_request opp) [0..<max_retries cfg] ?tr1
        = (RetrySuccess rb, ?tr1 @ retried cfg (update_request opp) 0 (Suc r))"
      using h(4-7) unfolding n [symmetric] by (intro retry_update_success) simp_all
    then show ?thesis using h(1-3) by (simp add: update_one_def send_def)
  qed
  have B: "filter is_create_follow_up
             ([Call (update_request opp)] @ retried cfg (update_request opp) 0 (Suc r)) = []"
    by (simp add: retried_def update_request_def filter_concat comp_def)
  have C: "update_one cfg srv tomorrow opp (acc, tr)
          = (acc\<lparr>updated_records := updated_records acc @ [rb],
                  created_tasks := created_tasks acc @ [tb],
                  high_priority_count := high_priority_count acc + 1,
                  total_pipeline_value := total_pipeline_value acc + amount opp\<rparr>,
             tr @ [Call (update_request opp), Call (task_request tomorrow opp)])"
    if "srv (ncalls tr) (update_request opp) = Response 200 rb" "rb \<noteq> JInvalid"
      "srv (ncalls tr + 1) (task_request tomorrow opp) = Response 200 tb" "tb \<noteq> JInvalid"
      "winProbability opp > 0.8"
    using that by (simp add: update_one_def send_def ncalls_append ncalls_simps Let_def)
  show ?thesis using A B C by blast
qed

theorem C10_retry_success_not_followed_up_witness:
  "update_one default_retry_config update_flaky ''2024-05-02'' deal_a
      (sf_init, [Call fetch_request, Call (score_request [opp_001])])
     = (sf_init\<lparr>updated_records := [JObject ''ok'']\<rparr>,
        [Call fetch_request, Call (score_request [opp_001]), Call (update_request deal_a),
         Sleep 1.5, Call (update_request deal_a)])
   \<and> update_one default_retry_config all_ok ''2024-05-02'' deal_a
      (sf_init, [Call fetch_request, Call (score_request [opp_001])])
     = (sf_init\<lparr>updated_records := [JObject ''ok''], created_tasks := [JObject ''ok''],
          high_priority_count := 1, total_pipeline_value := 1000\<rparr>,
        [Call fetch_request, Call (score_request [opp_001]), Call (update_request deal_a),
         Call (task_request ''2024-05-02'' deal_a)])"
proof -
  let ?tr = "[Call fetch_request, Call (score_request [opp_001])]"
  have n: "ncalls ?tr = 2" by (simp add: ncalls_simps)
  note a = C10_retry_success_not_followed_up [where srv = update_flaky
      and tr = ?tr and opp = deal_a and st = 503 and b = JInvalid and r = 0
      and cfg = default_retry_config and rb = "JObject ''ok''" and tomorrow = "''2024-05-02''"
      and tb = "JObject ''ok''" and acc = sf_init]
  note b = C10_retry_success_not_followed_up [where srv = all_ok
      and tr = ?tr and opp = deal_a and st = 503 and b = JInvalid and r = 0
      and cfg = default_retry_config and rb = "JObject ''ok''" and tomorrow = "''2024-05-02''"
      and tb = "JObject ''ok''" and acc = sf_init]
  have ha: "update_flaky (ncalls ?tr) (update_request deal_a) = Response 503 JInvalid
      \<and> (500::nat) \<le> 503 \<and> (503::nat) < 600 \<and> 0 < max_retries default_retry_config
      \<and> (\<forall>j<0. \<exists>s c. update_flaky (ncalls ?tr + 1 + j) (update_request deal_a) = Response s c
             \<and> s \<noteq> 200)
      \<and> update_flaky (ncalls ?tr + 1 + 0) (update_request deal_a) = Response 200 (JObject ''ok'')
      \<and> JObject ''ok'' \<noteq> JInvalid"
    unfolding n by (simp add: update_flaky_def update_request_def default_retry_config_def)
  have hb: "all_ok (ncalls ?tr) (update_request deal_a) = Response 200 (JObject ''ok'')
      \<and> JObject ''ok'' \<noteq> JInvalid
      \<and> all_ok (ncalls ?tr + 1) (task_request ''2024-05-02'' deal_a) = Response 200 (JObject ''ok'')
      \<and> JObject ''ok'' \<noteq> JInvalid \<and> winProbability deal_a > 0.8"
    by (simp add: all_ok_def update_request_def task_request_def deal_a_def)
  have ra: "update_one default_retry_config update_flaky ''2024-05-02'' deal_a (sf_init, ?tr)
     = (sf_init\<lparr>updated_records := updated_records sf_init @ [JObject ''ok'']\<rparr>,
        ?tr @ [Call (update_request deal_a)]
          @ retried default_retry_config (update_request deal_a) 0 (Suc 0))"
    using a ha by blast
  have rb: "update_one default_retry_config all_ok ''2024-05-02'' deal_a (sf_init, ?tr)
     = (sf_init\<lparr>updated_records := updated_records sf_init @ [JObject ''ok''],
                  created_tasks := created_tasks sf_init @ [JObject ''ok''],
                  high_priority_count := high_priority_count sf_init + 1,
                  total_pipeline_value := total_pipeline_value sf_init + amount deal_a\<rparr>,
        ?tr @ [Call (update_request deal_a), Call (task_request ''2024-05-02'' deal_a)])"
    using b hb by blast
  show ?thesis unfolding ra rb
    by (simp add: sf_init_def deal_a_def retried_def backoff_time_def default_retry_config_def)
qed

section \<open>The aggregates of a run\<close>



lemma attempts_default: "[0..<max_retries default_retry_config + 1] = [0, 1, 2]"
  by (simp add: default_retry_config_def upt_rec)

lemma run_reject_c:
  "run_workflow default_retry_config (const_session reject_c) ''2024-05-01'' ''2024-05-02'' []
     = (Success reject_c_result, reject_c_trace)"
proof -
  have f: "fetch_opportunities default_retry_config (const_session reject_c) []
     = (Inr [opp_001], [Call fetch_request])"
    unfolding fetch_opportunities_def attempts_default
    by (simp add: fetch_attempt_def send_def const_session_def reject_c_def fetch_request_def)
  have s: "score_opportunities default_retry_config (const_session reject_c) [opp_001] [Call fetch_request]
     = (Inr five_deals, [Call fetch_request, Call (score_request [opp_001])])"
    unfolding score_opportunities_def attempts_default
    by (simp add: score_attempt_def send_def const_session_def reject_c_def score_request_def)
  have u: "update_salesforce default_retry_config (const_session reject_c) ''2024-05-02'' five_deals
       [Call fetch_request, Call (score_request [opp_001])]
     = (SfDict \<lparr>high_priority_count = 2, total_pipeline_value = 1500,
          updated_records = [JObject ''opp_a'', JObject ''opp_b'', JObject ''opp_d'', JObject ''opp_e''],
          created_tasks = [JObject ''task'', JObject ''task'', JObject ''task'', JObject ''task''],
          error_records = [''opp_c'']\<rparr>, butlast reject_c_trace)"
    by (simp add: update_salesforce_def five_deals_def update_one_def send_def const_session_def reject_c_def
        update_request_def task_request_def deal_a_def deal_b_def deal_c_def deal_d_def
        deal_e_def sf_init_def add_error_def reject_c_trace_def Let_def)
  have w: "write_summary default_retry_config (const_session reject_c) ''2024-05-01''
       \<lparr>high_priority_count = 2, total_pipeline_value = 1500,
          updated_records = [JObject ''opp_a'', JObject ''opp_b'', JObject ''opp_d'', JObject ''opp_e''],
          created_tasks = [JObject ''task'', JObject ''task'', JObject ''task'', JObject ''task''],
          error_records = [''opp_c'']\<rparr> (butlast reject_c_trace)
     = (Inr (JObject ''inserted''), reject_c_trace)"
    unfolding write_summary_def attempts_default
    by (simp add: write_attempt_def send_def const_session_def reject_c_def summary_request_def reject_c_trace_def)
  show ?thesis
    by (simp add: run_workflow_def f s u w reject_c_result_def)
qed

lemma run_workflow_success:
  assumes "run_workflow cfg srv today tomorrow tr = (Success res, tr')"
  shows "\<exists>rows tr1 tr2 sf tr3 b.
           fetch_opportunities cfg srv tr = (Inr rows, tr1)
         \<and> score_opportunities cfg srv rows tr1 = (Inr (res_opportunities res), tr2)
         \<and> update_salesforce cfg srv tomorrow (res_opportunities res) tr2 = (SfDict sf, tr3)
         \<and> write_summary cfg srv today sf tr3 = (Inr b, tr')
         \<and> res_tasks res = created_tasks sf
         \<and> res_errors res = error_records sf
         \<and> res_summary res =
              [(''runDate'', JString today),
               (''highPriorityCount'', JNumber (real (high_priority_count sf))),
               (''totalPipelineValue'', JNumber (total_pipeline_value sf))]"
  using assms unfolding run_workflow_def
  by (auto split: prod.splits sum.splits sf_return.splits)






section \<open>The result of a successful run\<close>

text \<open>
  C9 (as amended). The result of a successful run has status \<open>success\<close>, the list of
  scored opportunities that Score returned, the follow-up tasks and the per-record error
  identifiers that UpdateRecords collected, and a summary with exactly three entries: the
  run date, the count of high-priority deals and the total pipeline value.
\<close>

theorem C9_success_result_shape:
  assumes "run_workflow cfg srv today tomorrow tr = (Success res, tr')"
  shows "result_status (fst (run_workflow cfg srv today tomorrow tr)) = ''success''
       \<and> (\<exists>rows tr1 tr2 sf tr3.
             fetch_opportunities cfg srv tr = (Inr rows, tr1)
           \<and> score_opportunities cfg srv rows tr1 = (Inr (res_opportunities res), tr2)
           \<and> update_salesforce cfg srv tomorrow (res_opportunities res) tr2 = (SfDict sf, tr3)
           \<and> res_tasks res = created_tasks sf
           \<and> res_errors res = error_records sf
           \<and> res_summary res =
                [(''runDate'', JString today),
                 (''highPriorityCount'', JNumber (real (high_priority_count sf))),
                 (''totalPipelineValue'', JNumber (total_pipeline_value sf))])
       \<and> map fst (res_summary res) = [''runDate'', ''highPriorityCount'', ''totalPipelineValue'']"
proof -
  from run_workflow_success [OF assms] obtain rows tr1 tr2 sf tr3 where
    h: "fetch_opportunities cfg srv tr = (Inr rows, tr1)"
      "score_opportunities cfg srv rows tr1 = (Inr (res_opportunities res), tr2)"
      "update_salesforce cfg srv tomorrow (res_opportunities res) tr2 = (SfDict sf, tr3)"
      "res_tasks res = created_tasks sf"
      "res_errors res = error_records sf"
      "res_summary res =
                [(''runDate'', JString today),
                 (''highPriorityCount'', JNumber (real (high_priority_count sf))),
                 (''totalPipelineValue'', JNumber (total_pipeline_value sf))]"
    by blast
  have k: "map fst (res_summary res) = [''runDate'', ''highPriorityCount'', ''totalPipelineValue'']"
    by (simp add: h(6))
  have st: "result_status (fst (run_workflow cfg srv today tomorrow tr)) = ''success''"
    by (simp add: assms)
  show ?thesis using h k st by blast
qed

theorem C9_success_result_shape_witness:
  "result_status (fst (run_workflow default_retry_config (const_session reject_c)
       ''2024-05-01'' ''2024-05-02'' [])) = ''success''
   \<and> map fst (res_summary reject_c_result)
       = [''runDate'', ''highPriorityCount'', ''totalPipelineValue'']"
  using C9_success_result_shape [OF run_reject_c] by blast

text \<open>
  The summary of the orchestrator holds no average win probability, against the wording
  of claim C9: in the run against \<open>reject_c\<close> the average over the scored deals is 0.7
  and no entry of the summary has that value.
\<close>

theorem C9_no_average_counterexample:
  "fst (run_workflow default_retry_config (const_session reject_c)
       ''2024-05-01'' ''2024-05-02'' []) = Success reject_c_result
   \<and> res_summary reject_c_result
       = [(''runDate'', JString ''2024-05-01''), (''highPriorityCount'', JNumber 2),
          (''totalPipelineValue'', JNumber 1500)]
   \<and> avg_probability (res_opportunities reject_c_result) = 0.7
   \<and> JNumber (avg_probability (res_opportunities reject_c_result))
        \<notin> snd ` set (res_summary reject_c_result)"
  by (simp add: run_reject_c reject_c_result_def avg_probability_def five_deals_def
      deal_a_def deal_b_def deal_c_def deal_d_def deal_e_def)

section \<open>A rejected update does not stop the run\<close>

lemma update_one_accepted:
  assumes "first_try_ok f tomorrow opp"
  shows "\<exists>acc'. update_one cfg (const_session f) tomorrow opp (acc, tr)
           = (acc', tr @ [Call (update_request opp), Call (task_request tomorrow opp)])
         \<and> updated_records acc' = updated_records acc @ [body_of (f (update_request opp))]
         \<and> error_records acc' = error_records acc"
proof -
  obtain b where u: "f (update_request opp) = Response 200 b" "b \<noteq> JInvalid"
    using assms by (cases "f (update_request opp)") (auto simp: first_try_ok_def)
  obtain ts tb where t: "f (task_request tomorrow opp) = Response ts tb" "ts \<noteq> 200 \<or> tb \<noteq> JInvalid"
    using assms by (cases "f (task_request tomorrow opp)") (auto simp: first_try_ok_def)
  show ?thesis using u t
    by (auto simp: update_one_def send_def const_session_def Let_def)
qed

lemma update_one_rejected:
  assumes "rejected_4xx (f (update_request opp))"
  shows "update_one cfg (const_session f) tomorrow opp (acc, tr)
           = (add_error (opp_id opp) acc, tr @ [Call (update_request opp)])"
proof -
  obtain st b where u: "f (update_request opp) = Response st b" "400 \<le> st" "st < 500"
    using assms by (cases "f (update_request opp)") auto
  show ?thesis using u by (simp add: update_one_def send_def const_session_def)
qed

lemma rejected_not_ok: "rejected_4xx (f (update_request opp)) \<Longrightarrow> \<not> first_try_ok f tomorrow opp"
  by (cases "f (update_request opp)") (auto simp: first_try_ok_def)

lemma update_loop_settled:
  assumes "\<forall>opp\<in>set opps. first_try_ok f tomorrow opp \<or> rejected_4xx (f (update_request opp))"
    and "update_loop cfg (const_session f) tomorrow opps (acc, tr) = (acc', tr')"
  shows "updated_records acc' = updated_records acc
           @ map (\<lambda>opp. body_of (f (update_request opp))) (filter (first_try_ok f tomorrow) opps)
       \<and> error_records acc' = error_records acc
           @ map opp_id (filter (\<lambda>opp. \<not> first_try_ok f tomorrow opp) opps)
       \<and> tr' = tr @ concat (map (record_events f tomorrow) opps)"
  using assms
proof (induction opps arbitrary: acc tr)
  case Nil
  then show ?case by simp
next
  case (Cons opp opps)
  have rest: "\<forall>opp\<in>set opps. first_try_ok f tomorrow opp \<or> rejected_4xx (f (update_request opp))"
    using Cons.prems(1) by simp
  show ?case
  proof (cases "first_try_ok f tomorrow opp")
    case True
    from True update_one_accepted [of f tomorrow opp cfg acc tr] obtain acc1 where
      s: "update_one cfg (const_session f) tomorrow opp (acc, tr)
           = (acc1, tr @ [Call (update_request opp), Call (task_request tomorrow opp)])"
      and u: "updated_records acc1 = updated_records acc @ [body_of (f (update_request opp))]"
      and e: "error_records acc1 = error_records acc" by blast
    have l: "update_loop cfg (const_session f) tomorrow opps
               (acc1, tr @ [Call (update_request opp), Call (task_request tomorrow opp)]) = (acc', tr')"
      using Cons.prems(2) s by simp
    show ?thesis using Cons.IH [OF rest l] True u e by (simp add: record_events_def)
  next
    case False
    then have r: "rejected_4xx (f (update_request opp))" using Cons.prems(1) by simp
    have l: "update_loop cfg (const_session f) tomorrow opps
               (add_error (opp_id opp) acc, tr @ [Call (update_request opp)]) = (acc', tr')"
      using Cons.prems(2) r update_one_rejected [of f opp cfg tomorrow acc tr] by simp
    show ?thesis using Cons.IH [OF rest l] False by (simp add: record_events_def add_error_def)
  qed
qed

lemma filter_key_single:
  assumes "distinct (map g xs)" and "y \<in> g ` set xs"
  shows "map g (filter (\<lambda>x. g x = y) xs) = [y]
       \<and> length (filter (\<lambda>x. g x \<noteq> y) xs) + 1 = length xs"
  using assms
proof (induction xs)
  case Nil
  then show ?case by simp
next
  case (Cons x xs)
  show ?case
  proof (cases "g x = y")
    case True
    then have "y \<notin> g ` set xs" using Cons.prems(1) by auto
    then have "filter (\<lambda>x. g x = y) xs = []" "filter (\<lambda>x. g x \<noteq> y) xs = xs"
      by (auto simp: filter_empty_conv filter_id_conv)
    then show ?thesis using True by simp
  next
    case False
    then have "y \<in> g ` set xs" using Cons.prems(2) by auto
    then show ?thesis using Cons.IH Cons.prems(1) False by simp
  qed
qed

lemma update_salesforce_returns:
  assumes "scored \<noteq> []"
  shows "\<exists>sf tr'. update_salesforce cfg srv tomorrow scored tr = (SfDict sf, tr')"
  using assms by (simp add: update_salesforce_def split: prod.splits)

lemma write_summary_first_try:
  assumes "decodes_200 (f (summary_request today sf))"
  shows "write_summary cfg (const_session f) today sf tr
       = (Inr (body_of (f (summary_request today sf))), tr @ [Call (summary_request today sf)])"
proof -
  obtain b where r: "f (summary_request today sf) = Response 200 b" "b \<noteq> JInvalid"
    using assms by (cases "f (summary_request today sf)") auto
  have "write_summary cfg (const_session f) today sf tr
       = (Inr b, tr @ retries cfg (summary_request today sf) 0 @ [Call (summary_request today sf)])"
    using r by (intro write_retry_success) (simp_all add: const_session_def)
  then show ?thesis using r by (simp add: retries_def)
qed

text \<open>
  C2. Five scored opportunities with distinct ids, in a session whose answers depend on the
  request alone: the update of one id is answered 4xx, the updates of the four others are
  answered 200 and their follow-up calls raise nothing; Fetch and Score have returned and
  the summary insert is served. Then UpdateRecords returns with four updated records and
  that one id as its only error record, a follow-up request has been sent for each of the
  four, and the run ends with status \<open>success\<close>. Whatever a session answers,
  UpdateRecords returns its dict for such a list: it raises nothing.
\<close>

theorem C2_one_rejected_update_of_five:
  assumes five: "length scored = 5"
    and ids: "distinct (map opp_id scored)"
    and bad: "bad \<in> opp_id ` set scored"
    and upd: "\<forall>opp\<in>set scored.
               if opp_id opp = bad then rejected_4xx (f (update_request opp))
               else first_try_ok f tomorrow opp"
    and fetch: "fetch_opportunities cfg (const_session f) tr = (Inr rows, tr1)"
    and score: "score_opportunities cfg (const_session f) rows tr1 = (Inr scored, tr2)"
    and ins: "\<forall>c v. decodes_200
               (f (SnowflakeInsert ''analytics.fin_sales_priority_summary'' today c v))"
  shows "\<exists>sf tr3 res tr4.
           update_salesforce cfg (const_session f) tomorrow scored tr2 = (SfDict sf, tr3)
         \<and> length (updated_records sf) = 4
         \<and> error_records sf = [bad]
         \<and> (\<forall>opp\<in>set scored. opp_id opp \<noteq> bad
               \<longrightarrow> Call (task_request tomorrow opp) \<in> set (later_events tr2 tr3))
         \<and> run_workflow cfg (const_session f) today tomorrow tr = (Success res, tr4)
         \<and> result_status (fst (run_workflow cfg (const_session f) today tomorrow tr))
              = ''success''
         \<and> res_opportunities res = scored
         \<and> res_errors res = [bad]
         \<and> (\<exists>sf' tr'. update_salesforce cfg srv tomorrow scored tr0 = (SfDict sf', tr'))"
proof -
  have ne: "scored \<noteq> []" using five by auto
  obtain sf tr3 where u: "update_salesforce cfg (const_session f) tomorrow scored tr2 = (SfDict sf, tr3)"
    using update_salesforce_returns [OF ne] by blast
  have l: "update_loop cfg (const_session f) tomorrow scored (sf_init, tr2) = (sf, tr3)"
    using u ne by (auto simp: update_salesforce_def split: prod.splits)
  have settled: "\<forall>opp\<in>set scored. first_try_ok f tomorrow opp \<or> rejected_4xx (f (update_request opp))"
    using upd by (auto split: if_splits)
  have ok_iff: "first_try_ok f tomorrow opp \<longleftrightarrow> opp_id opp \<noteq> bad" if "opp \<in> set scored" for opp
    using upd that rejected_not_ok [of f opp tomorrow] by (auto split: if_splits)
  have f1: "filter (first_try_ok f tomorrow) scored = filter (\<lambda>opp. opp_id opp \<noteq> bad) scored"
    using ok_iff by (intro filter_cong) auto
  have f2: "filter (\<lambda>opp. \<not> first_try_ok f tomorrow opp) scored = filter (\<lambda>opp. opp_id opp = bad) scored"
    using ok_iff by (intro filter_cong) auto
  note s = update_loop_settled [OF settled l]
  note k = filter_key_single [OF ids bad]
  have n4: "length (updated_records sf) = 4"
    using s k five by (simp add: f1 sf_init_def)
  have e1: "error_records sf = [bad]"
    using s k by (simp add: f2 sf_init_def)
  have later: "later_events tr2 tr3 = concat (map (record_events f tomorrow) scored)"
    using s by (simp add: later_events_def)
  have tasks: "\<forall>opp\<in>set scored. opp_id opp \<noteq> bad
               \<longrightarrow> Call (task_request tomorrow opp) \<in> set (later_events tr2 tr3)"
  proof (intro ballI impI)
    fix opp assume o: "opp \<in> set scored" "opp_id opp \<noteq> bad"
    then have "first_try_ok f tomorrow opp" using ok_iff by simp
    then have "Call (task_request tomorrow opp) \<in> set (record_events f tomorrow opp)"
      by (simp add: record_events_def)
    then show "Call (task_request tomorrow opp) \<in> set (later_events tr2 tr3)"
      using o(1) unfolding later by auto
  qed
  have w: "write_summary cfg (const_session f) today sf tr3
       = (Inr (body_of (f (summary_request today sf))), tr3 @ [Call (summary_request today sf)])"
    using ins by (intro write_summary_first_try) (simp add: summary_request_def)
  let ?res = "\<lparr>res_opportunities = scored, res_tasks = created_tasks sf,
      res_summary = [(''runDate'', JString today),
                     (''highPriorityCount'', JNumber (real (high_priority_count sf))),
                     (''totalPipelineValue'', JNumber (total_pipeline_value sf))],
      res_errors = error_records sf\<rparr>"
  have r: "run_workflow cfg (const_session f) today tomorrow tr
       = (Success ?res, tr3 @ [Call (summary_request today sf)])"
    by (simp add: run_workflow_def fetch score u w)
  have st: "result_status (fst (run_workflow cfg (const_session f) today tomorrow tr)) = ''success''"
    by (simp add: r)
  have "res_opportunities ?res = scored" "res_errors ?res = [bad]" using e1 by simp_all
  moreover have "\<exists>sf' tr'. update_salesforce cfg srv tomorrow scored tr0 = (SfDict sf', tr')"
    using update_salesforce_returns [OF ne] by blast
  ultimately show ?thesis using u n4 e1 tasks r st by blast
qed

lemma fetch_reject_c:
  "fetch_opportunities default_retry_config (const_session reject_c) []
     = (Inr [opp_001], [Call fetch_request])"
  unfolding fetch_opportunities_def attempts_default
  by (simp add: fetch_attempt_def send_def const_session_def reject_c_def fetch_request_def)

lemma score_reject_c:
  "score_opportunities default_retry_config (const_session reject_c) [opp_001]
       [Call fetch_request]
     = (Inr five_deals, [Call fetch_request, Call (score_request [opp_001])])"
  unfolding score_opportunities_def attempts_default
  by (simp add: score_attempt_def send_def const_session_def reject_c_def score_request_def)

theorem C2_one_rejected_update_of_five_witness:
  "\<exists>sf tr3.
      update_salesforce default_retry_config (const_session reject_c) ''2024-05-02'' five_deals
          [Call fetch_request, Call (score_request [opp_001])] = (SfDict sf, tr3)
      \<and> length (updated_records sf) = 4
      \<and> error_records sf = [''opp_c'']
      \<and> Call (task_request ''2024-05-02'' deal_a) \<in> set tr3
      \<and> result_status (fst (run_workflow default_retry_config (const_session reject_c)
            ''2024-05-01'' ''2024-05-02'' [])) = ''success''"
proof -
  have five: "length five_deals = 5" by (simp add: five_deals_def)
  have ids: "distinct (map opp_id five_deals)"
    by (simp add: five_deals_def deal_a_def deal_b_def deal_c_def deal_d_def deal_e_def)
  have bad: "''opp_c'' \<in> opp_id ` set five_deals"
    by (simp add: five_deals_def deal_c_def)
  have upd: "\<forall>opp\<in>set five_deals.
               if opp_id opp = ''opp_c'' then rejected_4xx (reject_c (update_request opp))
               else first_try_ok reject_c ''2024-05-02'' opp"
    by (simp add: five_deals_def deal_a_def deal_b_def deal_c_def deal_d_def deal_e_def
        first_try_ok_def reject_c_def update_request_def task_request_def)
  have ins: "\<forall>c v. decodes_200
       (reject_c (SnowflakeInsert ''analytics.fin_sales_priority_summary'' ''2024-05-01'' c v))"
    by (simp add: reject_c_def)
  from C2_one_rejected_update_of_five [OF five ids bad upd fetch_reject_c score_reject_c ins]
  obtain sf tr3 where
    u: "update_salesforce default_retry_config (const_session reject_c) ''2024-05-02''
          five_deals [Call fetch_request, Call (score_request [opp_001])] = (SfDict sf, tr3)"
    and n: "length (updated_records sf) = 4" and e: "error_records sf = [''opp_c'']"
    and t: "\<forall>opp\<in>set five_deals. opp_id opp \<noteq> ''opp_c''
               \<longrightarrow> Call (task_request ''2024-05-02'' opp)
                     \<in> set (later_events [Call fetch_request, Call (score_request [opp_001])] tr3)"
    and st: "result_status (fst (run_workflow default_retry_config (const_session reject_c)
            ''2024-05-01'' ''2024-05-02'' [])) = ''success''"
    by blast
  have "Call (task_request ''2024-05-02'' deal_a)
          \<in> set (later_events [Call fetch_request, Call (score_request [opp_001])] tr3)"
    using t by (simp add: five_deals_def deal_a_def)
  then have "Call (task_request ''2024-05-02'' deal_a) \<in> set tr3"
    unfolding later_events_def by (rule in_set_dropD)
  then show ?thesis using u n e st by blast
qed

text \<open>
  With no opportunities at all, \<^verbatim>\<open>update_salesforce\<close> returns a list where the workflow
  expects a dict, and the run ends with the error result.
\<close>

lemma run_without_opportunities:
  assumes "fetch_opportunities cfg srv tr = (Inr [], tr1)"
  shows "run_workflow cfg srv today tomorrow tr = (Error TypeError, tr1)"
  using assms
  by (simp add: run_workflow_def score_opportunities_def update_salesforce_def)


section \<open>Routing\<close>







text \<open>
  C8. When the completion text of the coordinator contains none of the four capability
  names, the coordinator returns with \<^verbatim>\<open>next\<close> set to \<open>route_optimizer\<close>; whenever it
  returns, \<^verbatim>\<open>next\<close> is one of the four names. The dispatcher sends every \<^verbatim>\<open>next\<close>
  that is none of the four names to the route optimizer, which is then the second handler
  invoked; so it is in the dispatcher run with this coordinator on such a completion.
\<close>

theorem C8_routing_default:
  "(client (coordinator_messages s) = Inr content
      \<and> \<not> contains (lower content) ''route_optimizer''
      \<and> \<not> contains (lower content) ''fleet_monitor''
      \<and> \<not> contains (lower content) ''data_retriever''
      \<and> \<not> contains (lower content) ''notification''
     \<longrightarrow> (\<exists>s'. coordinator_agent client s = Inr s' \<and> st_next s' = ''route_optimizer''
               \<and> ctx_next_agent (st_context s') = Some ''route_optimizer''))
   \<and> (coordinator_agent client s = Inr s'
     \<longrightarrow> st_next s' \<in> {''route_optimizer'', ''fleet_monitor'', ''data_retriever'', ''notification''})
   \<and> (next_agent \<notin> {''route_optimizer'', ''fleet_monitor'', ''data_retriever'', ''notification''}
     \<longrightarrow> specialist ag next_agent = (''route_optimizer'', route_optimizer ag))
   \<and> (coordinator ag \<lparr>st_input = user_input, st_context = c, st_next = ''''\<rparr> = Inr s1
       \<and> st_next s1 \<notin> {''route_optimizer'', ''fleet_monitor'', ''data_retriever'', ''notification''}
     \<longrightarrow> take 2 (snd (process_with_agents ag user_input c)) = [''coordinator'', ''route_optimizer''])
   \<and> (client (coordinator_messages \<lparr>st_input = user_input, st_context = c, st_next = ''''\<rparr>)
         = Inr content
       \<and> \<not> contains (lower content) ''route_optimizer''
       \<and> \<not> contains (lower content) ''fleet_monitor''
       \<and> \<not> contains (lower content) ''data_retriever''
       \<and> \<not> contains (lower content) ''notification''
     \<longrightarrow> take 2 (snd (process_with_agents (with_coordinator client ag) user_input c))
           = [''coordinator'', ''route_optimizer''])"
proof -
  have a: "\<exists>s'. coordinator_agent client s = Inr s' \<and> st_next s' = ''route_optimizer''
               \<and> ctx_next_agent (st_context s') = Some ''route_optimizer''"
    if "client (coordinator_messages s) = Inr content"
      "\<not> contains (lower content) ''route_optimizer''"
      "\<not> contains (lower content) ''fleet_monitor''"
      "\<not> contains (lower content) ''data_retriever''"
      "\<not> contains (lower content) ''notification''"
    using that by (simp add: coordinator_agent_def Let_def)
  have b: "st_next s' \<in> {''route_optimizer'', ''fleet_monitor'', ''data_retriever'', ''notification''}"
    if "coordinator_agent client s = Inr s'"
    using that by (auto simp: coordinator_agent_def Let_def split: sum.splits if_splits)
  have c: "specialist ag next_agent = (''route_optimizer'', route_optimizer ag)"
    if "next_agent \<notin> {''route_optimizer'', ''fleet_monitor'', ''data_retriever'', ''notification''}"
    using that by (simp add: specialist_def)
  have d: "take 2 (snd (process_with_agents ag user_input c)) = [''coordinator'', ''route_optimizer'']"
    if "coordinator ag \<lparr>st_input = user_input, st_context = c, st_next = ''''\<rparr> = Inr s1"
      "st_next s1 \<notin> {''route_optimizer'', ''fleet_monitor'', ''data_retriever'', ''notification''}"
    using that
    by (auto simp: process_with_agents_def Let_def specialist_def split: sum.splits prod.splits)
  have e: "take 2 (snd (process_with_agents (with_coordinator client ag) user_input c))
           = [''coordinator'', ''route_optimizer'']"
    if "client (coordinator_messages \<lparr>st_input = user_input, st_context = c, st_next = ''''\<rparr>)
         = Inr content"
      "\<not> contains (lower content) ''route_optimizer''"
      "\<not> contains (lower content) ''fleet_monitor''"
      "\<not> contains (lower content) ''data_retriever''"
      "\<not> contains (lower content) ''notification''"
    using that
    by (auto simp: process_with_agents_def with_coordinator_def coordinator_agent_def
        Let_def specialist_def split: sum.splits prod.splits)
  show ?thesis using a b c d e by blast
qed

theorem C8_routing_default_witness:
  "(\<exists>s'. coordinator_agent vague_client hello_state = Inr s' \<and> st_next s' = ''route_optimizer''
          \<and> ctx_next_agent (st_context s') = Some ''route_optimizer'')
   \<and> take 2 (snd (process_with_agents lost_agents ''hello'' ctx0))
       = [''coordinator'', ''route_optimizer'']
   \<and> take 2 (snd (process_with_agents (with_coordinator vague_client finishing_agents)
                    ''hello'' ctx0))
       = [''coordinator'', ''route_optimizer'']"
proof -
  note t = C8_routing_default [where client = vague_client and s = hello_state
      and content = "''I am not sure WHO should handle this.''" and ag = lost_agents
      and user_input = "''hello''" and c = ctx0
      and ?s1.0 = "hello_state\<lparr>st_next := ''billing''\<rparr>"]
  have l: "lower ''I am not sure WHO should handle this.'' = ''i am not sure who should handle this.''"
    by (simp add: lower_def lower_char_def)
  have h1: "vague_client (coordinator_messages hello_state) = Inr ''I am not sure WHO should handle this.''
      \<and> \<not> contains (lower ''I am not sure WHO should handle this.'') ''route_optimizer''
      \<and> \<not> contains (lower ''I am not sure WHO should handle this.'') ''fleet_monitor''
      \<and> \<not> contains (lower ''I am not sure WHO should handle this.'') ''data_retriever''
      \<and> \<not> contains (lower ''I am not sure WHO should handle this.'') ''notification''"
    unfolding l by (simp add: vague_client_def contains_def sublist_code)
  have h2: "coordinator lost_agents \<lparr>st_input = ''hello'', st_context = ctx0, st_next = ''''\<rparr>
        = Inr (hello_state\<lparr>st_next := ''billing''\<rparr>)
      \<and> st_next (hello_state\<lparr>st_next := ''billing''\<rparr>)
          \<notin> {''route_optimizer'', ''fleet_monitor'', ''data_retriever'', ''notification''}"
    by (simp add: lost_agents_def to_billing_def hello_state_def)
  have h3: "vague_client (coordinator_messages
                \<lparr>st_input = ''hello'', st_context = ctx0, st_next = ''''\<rparr>)
        = Inr ''I am not sure WHO should handle this.''"
    by (simp add: vague_client_def)
  note t' = C8_routing_default [where client = vague_client
      and content = "''I am not sure WHO should handle this.''" and ag = finishing_agents
      and user_input = "''hello''" and c = ctx0]
  have "take 2 (snd (process_with_agents (with_coordinator vague_client finishing_agents)
                    ''hello'' ctx0))
       = [''coordinator'', ''route_optimizer'']"
    using t' h1 h3 by blast
  then show ?thesis using t h1 h2 by blast
qed

end
